theory Spec2Isabelle
  imports Complex_Main "HOL-Library.Multiset" "HOL-Library.Log_Nat"
begin

section \<open>Strings\<close>

text \<open>
  JavaScript strings are modelled as \<open>string\<close> (lists of 8-bit characters), so the model
  covers ASCII text. \<open>toLowerCase\<close> maps the 26 upper-case letters and leaves every other
  character alone.
\<close>

definition lower_char :: "char \<Rightarrow> char" where
  "lower_char c =
     (if c = CHR ''A'' then CHR ''a'' else if c = CHR ''B'' then CHR ''b''
      else if c = CHR ''C'' then CHR ''c'' else if c = CHR ''D'' then CHR ''d''
      else if c = CHR ''E'' then CHR ''e'' else if c = CHR ''F'' then CHR ''f''
      else if c = CHR ''G'' then CHR ''g'' else if c = CHR ''H'' then CHR ''h''
      else if c = CHR ''I'' then CHR ''i'' else if c = CHR ''J'' then CHR ''j''
      else if c = CHR ''K'' then CHR ''k'' else if c = CHR ''L'' then CHR ''l''
      else if c = CHR ''M'' then CHR ''m'' else if c = CHR ''N'' then CHR ''n''
      else if c = CHR ''O'' then CHR ''o'' else if c = CHR ''P'' then CHR ''p''
      else if c = CHR ''Q'' then CHR ''q'' else if c = CHR ''R'' then CHR ''r''
      else if c = CHR ''S'' then CHR ''s'' else if c = CHR ''T'' then CHR ''t''
      else if c = CHR ''U'' then CHR ''u'' else if c = CHR ''V'' then CHR ''v''
      else if c = CHR ''W'' then CHR ''w'' else if c = CHR ''X'' then CHR ''x''
      else if c = CHR ''Y'' then CHR ''y'' else if c = CHR ''Z'' then CHR ''z''
      else c)"

definition toLowerCase :: "string \<Rightarrow> string" where
  "toLowerCase s = map lower_char s"

text \<open>\<open>s.startsWith(k)\<close> and \<open>s.includes(k)\<close> (named \<open>str_includes\<close>).\<close>

fun startsWith :: "string \<Rightarrow> string \<Rightarrow> bool" where
  "startsWith s [] = True"
| "startsWith [] (k # ks) = False"
| "startsWith (c # cs) (k # ks) = (c = k \<and> startsWith cs ks)"

fun str_includes :: "string \<Rightarrow> string \<Rightarrow> bool" where
  "str_includes [] k = (k = [])"
| "str_includes (c # cs) k = (startsWith (c # cs) k \<or> str_includes cs k)"

text \<open>Decimal printing of a number inside a template literal.\<close>

definition digit_char :: "nat \<Rightarrow> char" where
  "digit_char d =
     (if d = 0 then CHR ''0'' else if d = 1 then CHR ''1'' else if d = 2 then CHR ''2''
      else if d = 3 then CHR ''3'' else if d = 4 then CHR ''4'' else if d = 5 then CHR ''5''
      else if d = 6 then CHR ''6'' else if d = 7 then CHR ''7'' else if d = 8 then CHR ''8''
      else CHR ''9'')"

function show_nat :: "nat \<Rightarrow> string" where
  "show_nat n = (if n < 10 then [digit_char n] else show_nat (n div 10) @ [digit_char (n mod 10)])"
  by pat_completeness auto
termination
  by (relation "measure id") auto

declare show_nat.simps [simp del]

section \<open>Verification reports (verify.mjs)\<close>

record keyword_match =
  keyword :: string
  match_count :: nat

record evidence =
  ev_count :: nat
  ev_matches :: "keyword_match list"

datatype verification_status = verified | unverified | needs_review

record verification_report =
  vr_vendor :: "string option"
  vr_name :: string
  website_live :: bool
  website_error :: "string option"
  pages_checked :: "string list option"
  ketamine_evidence :: "evidence option"
  psychiatry_evidence :: "evidence option"
  pricing_found :: "string list option"
  verification_date :: string
  vr_status :: verification_status

definition KETAMINE_KEYWORDS :: "string list" where
  "KETAMINE_KEYWORDS =
     [''ketamine'', ''spravato'', ''esketamine'', ''iv infusion'', ''im injection'',
      ''intramuscular'', ''infusion clinic'', ''infusion therapy'', ''treatment series'',
      ''rems'']"

definition PSYCHIATRY_KEYWORDS :: "string list" where
  "PSYCHIATRY_KEYWORDS =
     [''psychiatry'', ''psychiatric'', ''behavioral health'', ''mental health'',
      ''outcome tracking'', ''phq-9'', ''gad-7'', ''rating scales'', ''outcome measures'']"

definition PAGES_TO_CHECK :: "string list" where
  "PAGES_TO_CHECK = ['''', ''/pricing'', ''/features'', ''/psychiatry'', ''/solutions'', ''/about'']"

text \<open>
  \<open>content.match(new RegExp(keyword, 'gi'))\<close>: the keywords hold no regular-expression
  operator, so the match is the list of the non-overlapping, case-insensitive occurrences
  of the keyword, found from left to right. \<open>count_from skip s k\<close> counts them in \<open>s\<close>
  once \<open>skip\<close> characters (the rest of the occurrence just found) are passed.
\<close>

fun count_from :: "nat \<Rightarrow> string \<Rightarrow> string \<Rightarrow> nat" where
  "count_from skip [] k = 0"
| "count_from (Suc n) (c # cs) k = count_from n cs k"
| "count_from 0 (c # cs) k =
     (if startsWith (toLowerCase (c # cs)) (toLowerCase k)
      then 1 + count_from (length k - 1) cs k
      else count_from 0 cs k)"

definition searchKeywords :: "string \<Rightarrow> string list \<Rightarrow> evidence" where
  "searchKeywords content kws =
     (if content = [] then \<lparr>ev_count = 0, ev_matches = []\<rparr>
      else foldl (\<lambda>acc k.
             let n = count_from 0 content k in
             if n > 0
             then \<lparr>ev_count = ev_count acc + n,
                   ev_matches = ev_matches acc @ [\<lparr>keyword = k, match_count = n\<rparr>]\<rparr>
             else acc)
           \<lparr>ev_count = 0, ev_matches = []\<rparr> kws)"

text \<open>
  The network is a parameter of the model. \<open>head_result\<close> is the outcome of the
  \<open>HEAD\<close> request of \<open>checkWebsite\<close>: the request threw (with the error's message), or a
  response came back with its \<open>ok\<close> flag and status.
\<close>

datatype head_result = Threw string | Responded bool nat

record website_status =
  ws_ok :: bool
  ws_status :: nat
  ws_error :: "string option"

definition checkWebsite :: "(string \<Rightarrow> head_result) \<Rightarrow> string \<Rightarrow> website_status" where
  "checkWebsite head url =
     (case head url of
        Responded ok st \<Rightarrow> \<lparr>ws_ok = ok, ws_status = st, ws_error = None\<rparr>
      | Threw msg \<Rightarrow> \<lparr>ws_ok = False, ws_status = 0, ws_error = Some msg\<rparr>)"

text \<open>
  The vendor-like record that \<open>verifyVendor\<close>, \<open>vendorExists\<close> and
  \<open>generateSoftwareEntry\<close> read. A discovered vendor has no slug; a missing website,
  description or source is \<open>None\<close>.
\<close>

record vendor =
  v_name :: string
  v_slug :: "string option"
  v_website :: "string option"
  v_description :: "string option"
  v_source :: "string option"

text \<open>
  The environment of \<open>verifyVendor\<close>: the \<open>HEAD\<close> probe, the text that
  \<open>fetchPageContent\<close> returns for a page of a website (the request, with the URL
  resolution and the markup stripping; \<open>None\<close> when it returns null), the price
  patterns of \<open>extractPricing\<close>, and the date of the run.
\<close>

record environment =
  env_head :: "string \<Rightarrow> head_result"
  env_page :: "string \<Rightarrow> string \<Rightarrow> string option"
  env_pricing :: "string \<Rightarrow> string list option"
  env_today :: string

text \<open>
  The URL handed to the probe. A missing website reads as the empty string here; what
  the request does with it (\<open>fetch\<close> throws on a value that is not a URL) is the answer
  of \<open>env_head\<close>.
\<close>

definition website_of :: "vendor \<Rightarrow> string" where
  "website_of v = (case v_website v of None \<Rightarrow> [] | Some w \<Rightarrow> w)"

text \<open>The loop over \<open>PAGES_TO_CHECK\<close>: the state is \<open>(allContent, pagesChecked)\<close>.\<close>

definition fetch_step :: "environment \<Rightarrow> string \<Rightarrow> string \<times> string list \<Rightarrow> string \<Rightarrow> string \<times> string list" where
  "fetch_step env site st pagePath =
     (case env_page env site pagePath of
        None \<Rightarrow> st
      | Some content \<Rightarrow>
          if content = [] then st
          else (fst st @ '' '' @ content,
                snd st @ [if pagePath = [] then ''/'' else pagePath]))"

definition extractPricing :: "environment \<Rightarrow> string \<Rightarrow> string list option" where
  "extractPricing env content = (if content = [] then None else env_pricing env content)"

definition verifyVendor :: "environment \<Rightarrow> vendor \<Rightarrow> verification_report" where
  "verifyVendor env v =
     (let websiteStatus = checkWebsite (env_head env) (website_of v) in
      if \<not> ws_ok websiteStatus then
        \<lparr>vr_vendor = v_slug v, vr_name = v_name v, website_live = False,
         website_error =
           Some (case ws_error websiteStatus of
                   None \<Rightarrow> ''HTTP '' @ show_nat (ws_status websiteStatus)
                 | Some msg \<Rightarrow>
                     if msg = [] then ''HTTP '' @ show_nat (ws_status websiteStatus) else msg),
         pages_checked = None, ketamine_evidence = None, psychiatry_evidence = None,
         pricing_found = None, verification_date = env_today env, vr_status = unverified\<rparr>
      else
        let (allContent, pagesChecked) = foldl (fetch_step env (website_of v)) ([], []) PAGES_TO_CHECK;
            ketamineEvidence = searchKeywords allContent KETAMINE_KEYWORDS;
            psychiatryEvidence = searchKeywords allContent PSYCHIATRY_KEYWORDS;
            pricingFound = extractPricing env allContent;
            status = (if ev_count ketamineEvidence \<ge> 5 then verified
                      else if ev_count psychiatryEvidence \<ge> 3 then verified
                      else needs_review)
        in \<lparr>vr_vendor = v_slug v, vr_name = v_name v, website_live = True,
            website_error = None, pages_checked = Some pagesChecked,
            ketamine_evidence = Some ketamineEvidence,
            psychiatry_evidence = Some psychiatryEvidence,
            pricing_found = pricingFound, verification_date = env_today env,
            vr_status = status\<rparr>)"

section \<open>Classification (classify.mjs)\<close>

datatype category = unknown | ketamine_specific | ketamine_compatible | general_ehr

datatype confidence_level = high | medium | low

record ketamine_features =
  iv_protocols :: bool
  im_protocols :: bool
  spravato_workflows :: bool
  outcome_tracking :: bool
  patient_rating_scales :: bool
  ketamine_consent_forms :: bool
  treatment_series_tracking :: bool

record classification_evidence =
  ketamine_mentions :: nat
  psychiatry_mentions :: nat
  ev_keywords :: "keyword_match list option"

text \<open>
  The object \<open>classifyVendor\<close> returns. \<open>inferred_features\<close> is the key that
  \<open>classifyAllVendors\<close> adds and \<open>generateSoftwareEntry\<close> reads; \<open>None\<close> is the
  absent key.
\<close>

record classification_result =
  classification :: category
  reason :: string
  confidence :: confidence_level
  cl_evidence :: "classification_evidence option"
  inferred_features :: "ketamine_features option"

definition ketamineCount :: "verification_report \<Rightarrow> nat" where
  "ketamineCount r = (case ketamine_evidence r of None \<Rightarrow> 0 | Some e \<Rightarrow> ev_count e)"

definition psychiatryCount :: "verification_report \<Rightarrow> nat" where
  "psychiatryCount r = (case psychiatry_evidence r of None \<Rightarrow> 0 | Some e \<Rightarrow> ev_count e)"

definition evidence_matches :: "evidence option \<Rightarrow> keyword_match list" where
  "evidence_matches e = (case e of None \<Rightarrow> [] | Some x \<Rightarrow> ev_matches x)"

definition hasKetamineKeyword :: "verification_report \<Rightarrow> bool" where
  "hasKetamineKeyword r =
     (case ketamine_evidence r of
        None \<Rightarrow> False
      | Some e \<Rightarrow>
          list_ex (\<lambda>m. keyword m = ''ketamine'' \<or> keyword m = ''spravato'' \<or> keyword m = ''esketamine'')
            (ev_matches e))"

text \<open>Computed by \<open>classifyVendor\<close> and never read by it.\<close>

definition hasInfusionKeyword :: "verification_report \<Rightarrow> bool" where
  "hasInfusionKeyword r =
     (case ketamine_evidence r of
        None \<Rightarrow> False
      | Some e \<Rightarrow>
          list_ex (\<lambda>m. str_includes (keyword m) ''infusion'' \<or> str_includes (keyword m) ''iv ''
                       \<or> str_includes (keyword m) ''im '')
            (ev_matches e))"

definition classifyVendor :: "verification_report \<Rightarrow> classification_result" where
  "classifyVendor r =
     (if \<not> website_live r then
        \<lparr>classification = unknown, reason = ''Website unavailable for verification'',
         confidence = low, cl_evidence = None, inferred_features = None\<rparr>
      else if ketamineCount r \<ge> 5 \<and> hasKetamineKeyword r then
        \<lparr>classification = ketamine_specific,
         reason = ''Found '' @ show_nat (ketamineCount r)
                  @ '' ketamine-related mentions with specific keywords'',
         confidence = high,
         cl_evidence = Some \<lparr>ketamine_mentions = ketamineCount r,
                             psychiatry_mentions = psychiatryCount r,
                             ev_keywords = Some (evidence_matches (ketamine_evidence r))\<rparr>,
         inferred_features = None\<rparr>
      else if ketamineCount r \<ge> 1 \<or> psychiatryCount r \<ge> 3 then
        \<lparr>classification = ketamine_compatible,
         reason = (if ketamineCount r > 0
                   then ''Found '' @ show_nat (ketamineCount r)
                        @ '' ketamine mention(s) - may support ketamine workflows''
                   else ''Found '' @ show_nat (psychiatryCount r)
                        @ '' psychiatry/behavioral health mentions - compatible with mental health practices''),
         confidence = (if ketamineCount r > 0 then medium else low),
         cl_evidence = Some \<lparr>ketamine_mentions = ketamineCount r,
                             psychiatry_mentions = psychiatryCount r,
                             ev_keywords = Some (evidence_matches (ketamine_evidence r)
                                              @ evidence_matches (psychiatry_evidence r))\<rparr>,
         inferred_features = None\<rparr>
      else
        \<lparr>classification = general_ehr,
         reason = ''No ketamine or psychiatry-specific evidence found'',
         confidence = high,
         cl_evidence = Some \<lparr>ketamine_mentions = ketamineCount r,
                             psychiatry_mentions = psychiatryCount r,
                             ev_keywords = None\<rparr>,
         inferred_features = None\<rparr>)"

definition hasKeyword :: "keyword_match list \<Rightarrow> string list \<Rightarrow> bool" where
  "hasKeyword ms ks = list_ex (\<lambda>m. list_ex (\<lambda>k. str_includes (toLowerCase (keyword m)) k) ks) ms"

definition inferKetamineFeatures :: "verification_report \<Rightarrow> ketamine_features" where
  "inferKetamineFeatures r =
     (let ms = evidence_matches (ketamine_evidence r) in
      \<lparr>iv_protocols = hasKeyword ms [''iv infusion'', ''infusion protocol'', ''infusion clinic''],
       im_protocols = hasKeyword ms [''im injection'', ''intramuscular''],
       spravato_workflows = hasKeyword ms [''spravato'', ''rems'', ''esketamine''],
       outcome_tracking = hasKeyword ms [''outcome tracking'', ''outcome measure'', ''phq-9'', ''gad-7''],
       patient_rating_scales = hasKeyword ms [''rating scale'', ''phq'', ''gad'', ''questionnaire''],
       ketamine_consent_forms = hasKeyword ms [''consent form'', ''informed consent''],
       treatment_series_tracking =
         hasKeyword ms [''treatment series'', ''session tracking'', ''infusion series'']\<rparr>)"

text \<open>One element of the list \<open>classifyAllVendors\<close> builds (the verify-only run).\<close>

definition classifyAllVendors_entry :: "verification_report \<Rightarrow> classification_result" where
  "classifyAllVendors_entry r =
     (classifyVendor r)\<lparr>inferred_features := Some (inferKetamineFeatures r)\<rparr>"

section \<open>Candidate entries (acquire/index.mjs)\<close>

definition is_lower_alnum :: "char \<Rightarrow> bool" where
  "is_lower_alnum c = (c \<in> set ''abcdefghijklmnopqrstuvwxyz0123456789'')"

text \<open>
  \<open>replace(/[^a-z0-9]+/g, '-')\<close>: every maximal run of other characters becomes one dash.
  The flag says that the previous character belonged to such a run.
\<close>

fun dash_runs :: "bool \<Rightarrow> string \<Rightarrow> string" where
  "dash_runs in_run [] = []"
| "dash_runs in_run (c # cs) =
     (if is_lower_alnum c then c # dash_runs False cs
      else if in_run then dash_runs True cs
      else CHR ''-'' # dash_runs True cs)"

text \<open>\<open>replace(/^-|-$/g, '')\<close>: one dash off the front, then one off the end.\<close>

definition trim_dashes :: "string \<Rightarrow> string" where
  "trim_dashes s =
     (let s1 = (case s of [] \<Rightarrow> [] | c # cs \<Rightarrow> if c = CHR ''-'' then cs else c # cs)
      in if s1 \<noteq> [] \<and> last s1 = CHR ''-'' then butlast s1 else s1)"

definition generateSlug :: "string \<Rightarrow> string" where
  "generateSlug name = trim_dashes (dash_runs False (toLowerCase name))"

record entry_pricing =
  pr_model :: string
  pr_starting_price :: "string option"
  pr_currency :: string
  pr_has_free_trial :: bool
  pr_billing_cycle :: string
  pr_notes :: string

record entry_verification =
  ver_status :: verification_status
  ver_last_verified :: string
  ver_verified_by :: string
  ver_source_urls :: "string option list"
  ver_notes :: string

record software_entry =
  e_name :: string
  e_slug :: string
  e_website :: "string option"
  e_logo :: string
  e_software_type :: category
  e_description :: string
  e_pricing :: entry_pricing
  e_verification :: entry_verification
  e_ketamine_features :: ketamine_features
  e_general_features :: "string list"
  e_integrations :: "string list"
  e_pros :: "string list"
  e_cons :: "string list"
  e_ideal_for :: string
  e_last_verified :: string
  e_data_source :: string

text \<open>\<open>a || b\<close> on an optional string: a missing or empty \<open>a\<close> gives \<open>b\<close>.\<close>

definition or_else :: "string option \<Rightarrow> string \<Rightarrow> string" where
  "or_else a b = (case a of None \<Rightarrow> b | Some s \<Rightarrow> if s = [] then b else s)"

definition no_features :: ketamine_features where
  "no_features =
     \<lparr>iv_protocols = False, im_protocols = False, spravato_workflows = False,
      outcome_tracking = False, patient_rating_scales = False,
      ketamine_consent_forms = False, treatment_series_tracking = False\<rparr>"

definition generateSoftwareEntry ::
  "string \<Rightarrow> vendor \<Rightarrow> verification_report \<Rightarrow> classification_result \<Rightarrow> software_entry" where
  "generateSoftwareEntry today v verificationReport c =
     (let slug = generateSlug (v_name v) in
      \<lparr>e_name = v_name v, e_slug = slug, e_website = v_website v,
       e_logo = ''/images/software/'' @ slug @ ''-logo.png'',
       e_software_type = classification c,
       e_description = or_else (v_description v) (v_name v @ '' - awaiting verification''),
       e_pricing = \<lparr>pr_model = ''custom'', pr_starting_price = None, pr_currency = ''USD'',
                    pr_has_free_trial = False, pr_billing_cycle = ''monthly'',
                    pr_notes = ''Contact for pricing''\<rparr>,
       e_verification = \<lparr>ver_status = needs_review, ver_last_verified = today,
                         ver_verified_by = ''agent'', ver_source_urls = [v_website v],
                         ver_notes = ''Auto-discovered. '' @ reason c\<rparr>,
       e_ketamine_features =
         (case inferred_features c of Some f \<Rightarrow> f | None \<Rightarrow> no_features),
       e_general_features = [], e_integrations = [], e_pros = [],
       e_cons = [''Auto-discovered - requires manual verification''],
       e_ideal_for = ''Awaiting verification'', e_last_verified = today,
       e_data_source = or_else (v_source v) ''G2/Capterra discovery''\<rparr>)"

text \<open>
  The body of the loop of \<open>runAcquisition\<close> over the new vendors: verify, classify,
  generate the entry.
\<close>

definition processNewVendor :: "environment \<Rightarrow> vendor \<Rightarrow> software_entry" where
  "processNewVendor env v =
     (let verificationReport = verifyVendor env v;
          c = classifyVendor verificationReport
      in generateSoftwareEntry (env_today env) v verificationReport c)"

text \<open>Concrete inputs for the examples.\<close>

definition acme :: vendor where
  "acme = \<lparr>v_name = ''Acme Health'', v_slug = None, v_website = Some ''https://acme.io'',
            v_description = None, v_source = Some ''G2''\<rparr>"

definition live_env :: "string \<Rightarrow> environment" where
  "live_env home =
     \<lparr>env_head = (\<lambda>u. Responded True 200),
      env_page = (\<lambda>site p. if p = [] then Some home else None),
      env_pricing = (\<lambda>c. None),
      env_today = ''2026-01-24''\<rparr>"

definition down_env :: environment where
  "down_env =
     \<lparr>env_head = (\<lambda>u. Responded False 503),
      env_page = (\<lambda>site p. None),
      env_pricing = (\<lambda>c. None),
      env_today = ''2026-01-24''\<rparr>"

definition report_of :: "bool \<Rightarrow> nat \<Rightarrow> string list \<Rightarrow> nat \<Rightarrow> verification_report" where
  "report_of live k ks p =
     \<lparr>vr_vendor = Some ''acme'', vr_name = ''Acme'', website_live = live,
      website_error = None, pages_checked = Some [''/''],
      ketamine_evidence =
        Some \<lparr>ev_count = k, ev_matches = map (\<lambda>w. \<lparr>keyword = w, match_count = 1\<rparr>) ks\<rparr>,
      psychiatry_evidence = Some \<lparr>ev_count = p, ev_matches = []\<rparr>,
      pricing_found = None, verification_date = ''2026-01-24'', vr_status = needs_review\<rparr>"

section \<open>Deduplication of discovered vendors (acquire/index.mjs)\<close>

definition is_space :: "char \<Rightarrow> bool" where
  "is_space c = (c \<in> set [CHR '' '', CHR 0x09, CHR 0x0A, CHR 0x0B, CHR 0x0C, CHR 0x0D])"

definition trim :: "string \<Rightarrow> string" where
  "trim s = rev (dropWhile is_space (rev (dropWhile is_space s)))"

definition normalizeName :: "string \<Rightarrow> string" where
  "normalizeName name = trim (filter is_lower_alnum (toLowerCase name))"

text \<open>\<open>replace(/^www\./, '')\<close>.\<close>

definition strip_www :: "string \<Rightarrow> string" where
  "strip_www h = (if startsWith h ''www.'' then drop 4 h else h)"

text \<open>
  \<open>new URL(url).hostname\<close> belongs to the platform: \<open>hostname\<close> is a parameter, \<open>None\<close>
  when the constructor throws. A missing website makes it throw as well.
\<close>

definition extractDomain :: "(string \<Rightarrow> string option) \<Rightarrow> string option \<Rightarrow> string option" where
  "extractDomain hostname url =
     (case url of
        None \<Rightarrow> None
      | Some u \<Rightarrow> (case hostname u of None \<Rightarrow> None | Some h \<Rightarrow> Some (strip_www h)))"

datatype exists_check = NotExists | Exists string "string option"

definition truthy_str :: "string option \<Rightarrow> bool" where
  "truthy_str s = (case s of None \<Rightarrow> False | Some x \<Rightarrow> x \<noteq> [])"

text \<open>The loop of \<open>vendorExists\<close>, with \<open>normalizedNew\<close> and \<open>newDomain\<close> computed before it.\<close>

fun vendorExists_loop ::
  "(string \<Rightarrow> string option) \<Rightarrow> string \<Rightarrow> string option \<Rightarrow> vendor list \<Rightarrow> exists_check" where
  "vendorExists_loop hostname normalizedNew newDomain [] = NotExists"
| "vendorExists_loop hostname normalizedNew newDomain (existing # rest) =
     (if normalizeName (v_name existing) = normalizedNew
      then Exists ''name match'' (v_slug existing)
      else let existingDomain = extractDomain hostname (v_website existing) in
        if truthy_str newDomain \<and> truthy_str existingDomain \<and> newDomain = existingDomain
        then Exists ''domain match'' (v_slug existing)
        else vendorExists_loop hostname normalizedNew newDomain rest)"

definition vendorExists :: "(string \<Rightarrow> string option) \<Rightarrow> vendor \<Rightarrow> vendor list \<Rightarrow> exists_check" where
  "vendorExists hostname newVendor existingVendors =
     vendorExists_loop hostname (normalizeName (v_name newVendor))
       (extractDomain hostname (v_website newVendor)) existingVendors"

text \<open>An undefined value inside a template literal prints as \<open>undefined\<close>.\<close>

definition show_opt :: "string option \<Rightarrow> string" where
  "show_opt s = (case s of None \<Rightarrow> ''undefined'' | Some x \<Rightarrow> x)"

text \<open>
  The filter loop of \<open>runAcquisition\<close>. The state is \<open>newVendors\<close> and the lines written
  to the console by the three \<open>Skipping\<close> branches.
\<close>

definition filter_step ::
  "(string \<Rightarrow> string option) \<Rightarrow> vendor list \<Rightarrow> vendor list \<times> string list \<Rightarrow> vendor
     \<Rightarrow> vendor list \<times> string list" where
  "filter_step hostname existingVendors st v =
     (let newVendors = fst st; lines = snd st in
      if \<not> truthy_str (v_website v)
      then (newVendors, lines @ [''Skipping '' @ v_name v @ '': no website''])
      else case vendorExists hostname v existingVendors of
        Exists why slug \<Rightarrow>
          (newVendors,
           lines @ [''Skipping '' @ v_name v @ '': '' @ why @ '' ('' @ show_opt slug @ '')''])
      | NotExists \<Rightarrow>
          (case vendorExists hostname v newVendors of
             Exists why slug \<Rightarrow>
               (newVendors,
                lines @ [''Skipping '' @ v_name v @ '': duplicate in discovered list''])
           | NotExists \<Rightarrow> (newVendors @ [v], lines)))"

definition filterNewVendors ::
  "(string \<Rightarrow> string option) \<Rightarrow> vendor list \<Rightarrow> vendor list \<Rightarrow> vendor list \<Rightarrow> vendor list \<times> string list" where
  "filterNewVendors hostname existingVendors g2Vendors capterraVendors =
     foldl (filter_step hostname existingVendors) ([], []) (g2Vendors @ capterraVendors)"

text \<open>The words of the specification: when a candidate duplicates a vendor.\<close>

definition name_match :: "vendor \<Rightarrow> vendor \<Rightarrow> bool" where
  "name_match c e = (normalizeName (v_name e) = normalizeName (v_name c))"

definition domain_match :: "(string \<Rightarrow> string option) \<Rightarrow> vendor \<Rightarrow> vendor \<Rightarrow> bool" where
  "domain_match hostname c e =
     (case (extractDomain hostname (v_website c), extractDomain hostname (v_website e)) of
        (Some d, Some d') \<Rightarrow> d \<noteq> [] \<and> d = d'
      | _ \<Rightarrow> False)"

definition duplicate_of :: "(string \<Rightarrow> string option) \<Rightarrow> vendor \<Rightarrow> vendor \<Rightarrow> bool" where
  "duplicate_of hostname c e = (name_match c e \<or> domain_match hostname c e)"

definition registry_line :: "vendor \<Rightarrow> vendor \<Rightarrow> string" where
  "registry_line c e =
     ''Skipping '' @ v_name c @ '': ''
       @ (if name_match c e then ''name match'' else ''domain match'')
       @ '' ('' @ show_opt (v_slug e) @ '')''"

text \<open>Hostnames of the example URLs, as the URL parser gives them.\<close>

definition example_hostname :: "string \<Rightarrow> string option" where
  "example_hostname u =
     (if u = ''https://acme.io'' then Some ''acme.io''
      else if u = ''https://www.acme.io/pricing'' then Some ''www.acme.io''
      else if u = ''https://Beta.example/'' then Some ''beta.example''
      else if u = ''https://beta-two.example'' then Some ''beta-two.example''
      else if u = ''https://gamma.example'' then Some ''gamma.example''
      else None)"

definition mk_vendor :: "string \<Rightarrow> string option \<Rightarrow> string option \<Rightarrow> vendor" where
  "mk_vendor n s w =
     \<lparr>v_name = n, v_slug = s, v_website = w, v_description = None, v_source = None\<rparr>"

definition example_registry :: "vendor list" where
  "example_registry = [mk_vendor ''acme health'' (Some ''acme-health'') (Some ''https://acme.io'')]"

definition example_batch :: "vendor list" where
  "example_batch =
     [mk_vendor ''Acme Health!'' None (Some ''https://gamma.example''),
      mk_vendor ''Acme Two'' None (Some ''https://www.acme.io/pricing''),
      mk_vendor ''Beta'' None (Some ''https://Beta.example/''),
      mk_vendor ''beta'' None (Some ''https://beta-two.example''),
      mk_vendor ''BETA'' None None]"

section \<open>Numbers (IEEE 754 doubles)\<close>

text \<open>
  A JavaScript number is a double: a finite value, an infinity or NaN. A finite double is
  modelled by its exact rational value. The two zeros are one value here: the code never
  divides by a zero, \<open>-0 === 0\<close> holds and \<open>JSON.stringify\<close> writes both as \<open>0\<close>, so
  nothing the code computes or writes tells them apart.
\<close>

datatype jsnum = Fin rat | PosInf | NegInf | NaN

definition pow2 :: "int \<Rightarrow> rat" where
  "pow2 e = (if e \<ge> 0 then 2 ^ nat e else 1 / 2 ^ nat (- e))"

text \<open>The binary exponent of a positive rational: \<open>2 ^ ilog2 a \<le> a < 2 ^ (ilog2 a + 1)\<close>.\<close>

definition ilog2 :: "rat \<Rightarrow> int" where
  "ilog2 a = (if a \<ge> 1 then bitlen \<lfloor>a\<rfloor> - 1 else - bitlen (\<lceil>1 / a\<rceil> - 1))"

definition round_half_even :: "rat \<Rightarrow> int" where
  "round_half_even r =
     (let f = \<lfloor>r\<rfloor>; d = r - of_int f in
      if d < 1 / 2 then f
      else if d > 1 / 2 then f + 1
      else if even f then f else f + 1)"

text \<open>
  Rounding a real result to the nearest double, ties to even: a significand of 53 bits, the
  smallest exponent of the subnormal numbers, and the infinities on overflow. Every
  arithmetic operation rounds its exact result this way, and a number literal of a JSON
  text is read this way.
\<close>

definition fl :: "rat \<Rightarrow> jsnum" where
  "fl x =
     (if x = 0 then Fin 0
      else
        let a = \<bar>x\<bar>;
            e = max (ilog2 a) (- 1022);
            q = pow2 (e - 52);
            r = of_int (round_half_even (a / q)) * q
        in if r \<ge> pow2 1024 then (if x > 0 then PosInf else NegInf)
           else Fin (if x > 0 then r else - r))"

fun js_add :: "jsnum \<Rightarrow> jsnum \<Rightarrow> jsnum" where
  "js_add NaN y = NaN"
| "js_add x NaN = NaN"
| "js_add PosInf NegInf = NaN"
| "js_add NegInf PosInf = NaN"
| "js_add PosInf y = PosInf"
| "js_add x PosInf = PosInf"
| "js_add NegInf y = NegInf"
| "js_add x NegInf = NegInf"
| "js_add (Fin a) (Fin b) = (if a = 0 then Fin b else if b = 0 then Fin a else fl (a + b))"

definition sign_inf :: "bool \<Rightarrow> jsnum" where
  "sign_inf positive = (if positive then PosInf else NegInf)"

fun js_mul :: "jsnum \<Rightarrow> jsnum \<Rightarrow> jsnum" where
  "js_mul NaN y = NaN"
| "js_mul x NaN = NaN"
| "js_mul PosInf PosInf = PosInf"
| "js_mul PosInf NegInf = NegInf"
| "js_mul NegInf PosInf = NegInf"
| "js_mul NegInf NegInf = PosInf"
| "js_mul PosInf (Fin b) = (if b = 0 then NaN else sign_inf (b > 0))"
| "js_mul NegInf (Fin b) = (if b = 0 then NaN else sign_inf (b < 0))"
| "js_mul (Fin a) PosInf = (if a = 0 then NaN else sign_inf (a > 0))"
| "js_mul (Fin a) NegInf = (if a = 0 then NaN else sign_inf (a < 0))"
| "js_mul (Fin a) (Fin b) = fl (a * b)"

text \<open>Division; the divisors of the code are 10 and a total count that is not zero.\<close>

fun js_div :: "jsnum \<Rightarrow> jsnum \<Rightarrow> jsnum" where
  "js_div NaN y = NaN"
| "js_div x NaN = NaN"
| "js_div PosInf PosInf = NaN"
| "js_div PosInf NegInf = NaN"
| "js_div NegInf PosInf = NaN"
| "js_div NegInf NegInf = NaN"
| "js_div PosInf (Fin b) = sign_inf (b \<ge> 0)"
| "js_div NegInf (Fin b) = sign_inf (b < 0)"
| "js_div (Fin a) PosInf = Fin 0"
| "js_div (Fin a) NegInf = Fin 0"
| "js_div (Fin a) (Fin b) =
     (if b = 0 then (if a = 0 then NaN else sign_inf (a > 0)) else fl (a / b))"

text \<open>\<open>Math.round\<close>: the nearest integer, a half going up. The result is exact.\<close>

definition js_round :: "jsnum \<Rightarrow> jsnum" where
  "js_round n = (case n of Fin x \<Rightarrow> Fin (of_int \<lfloor>x + 1 / 2\<rfloor>) | _ \<Rightarrow> n)"

fun is_finite :: "jsnum \<Rightarrow> bool" where
  "is_finite (Fin x) = True"
| "is_finite n = False"

text \<open>\<open>n > 0\<close>.\<close>

fun js_positive :: "jsnum \<Rightarrow> bool" where
  "js_positive (Fin x) = (x > 0)"
| "js_positive PosInf = True"
| "js_positive n = False"

text \<open>\<open>n || 0\<close>.\<close>

definition or_zero :: "jsnum \<Rightarrow> jsnum" where
  "or_zero n = (if n = NaN then Fin 0 else n)"

text \<open>
  A number of a JSON document is \<open>None\<close> for \<open>null\<close> and otherwise the exact value of the
  literal. \<open>JSON.stringify\<close> writes an infinity or NaN as \<open>null\<close>, and a finite number by
  the shortest decimal that reads back as the same double; the exact value of the double
  stands for that literal, reading it gives the same double.
\<close>

fun stringify_num :: "jsnum \<Rightarrow> rat option" where
  "stringify_num (Fin x) = Some x"
| "stringify_num n = None"

text \<open>\<open>p === c\<close> for a number \<open>p\<close> of a document and a number \<open>c\<close> of the run.\<close>

definition doc_eq :: "rat option \<Rightarrow> jsnum \<Rightarrow> bool" where
  "doc_eq p c = (case p of None \<Rightarrow> False | Some x \<Rightarrow> fl x = c)"

section \<open>Review aggregation (aggregate-reviews.mjs)\<close>

text \<open>
  A field of a raw scrape record is any JSON value. \<open>JNum x\<close> is a number literal of the
  JSON text, \<open>x\<close> being its exact value; the code works on the double \<open>fl x\<close> that
  \<open>JSON.parse\<close> reads from it (an infinity for a literal such as \<open>1e309\<close>). \<open>JObject\<close>
  stands for any object or array.
\<close>

datatype jsval = JUndefined | JNull | JBool bool | JNum rat | JStr string | JObject

text \<open>
  The fields the aggregator reads. A record that is not an object (or is null) reads as
  the record with every field undefined, as \<open>item?.field\<close> does.
\<close>

record raw_item =
  productUrl :: jsval
  item_url :: jsval
  rating :: jsval
  overallRating :: jsval
  reviewCount :: jsval
  totalReviews :: jsval

fun truthy :: "jsval \<Rightarrow> bool" where
  "truthy JUndefined = False"
| "truthy JNull = False"
| "truthy (JBool b) = b"
| "truthy (JNum x) = (fl x \<noteq> Fin 0)"
| "truthy (JStr s) = (s \<noteq> [])"
| "truthy JObject = True"

text \<open>\<open>a || b\<close> and \<open>a ?? b\<close>.\<close>

definition js_or :: "jsval \<Rightarrow> jsval \<Rightarrow> jsval" where
  "js_or a b = (if truthy a then a else b)"

definition js_nullish :: "jsval \<Rightarrow> jsval \<Rightarrow> jsval" where
  "js_nullish a b = (if a = JUndefined \<or> a = JNull then b else a)"

datatype source = G2 | Capterra

text \<open>The order of \<open>localeCompare\<close> on the two names: \<open>capterra\<close> before \<open>g2\<close>.\<close>

fun source_rank :: "source \<Rightarrow> nat" where
  "source_rank Capterra = 0"
| "source_rank G2 = 1"

text \<open>The entries of \<open>result\<close>, as the run holds them.\<close>

record review_source =
  rs_source :: source
  rs_score :: jsnum
  rs_count :: jsnum
  rs_url :: string
  lastUpdated :: string

record aggregated_review =
  aggregateScore :: "jsnum option"
  totalCount :: jsnum
  sources :: "review_source list"
  lastAggregated :: string

text \<open>
  The same entries in the output file, which the next run reads as its previous output:
  a number is \<open>null\<close> or a literal.
\<close>

record doc_source =
  d_source :: source
  d_score :: "rat option"
  d_count :: "rat option"
  d_url :: string
  d_lastUpdated :: string

record doc_review =
  d_aggregateScore :: "rat option"
  d_totalCount :: "rat option"
  d_sources :: "doc_source list"
  d_lastAggregated :: string

record platform_mapping =
  pm_slug :: "string option"
  pm_url :: "string option"

record vendor_mapping =
  map_g2 :: "platform_mapping option"
  map_capterra :: "platform_mapping option"

fun platform_of :: "source \<Rightarrow> vendor_mapping \<Rightarrow> platform_mapping option" where
  "platform_of G2 m = map_g2 m"
| "platform_of Capterra m = map_capterra m"

datatype error = MappingsMissing | TypeError

text \<open>
  \<open>url.match(/g2\.com\/products\/([^/]+)/)\<close>: the leftmost place where the literal is
  followed by at least one character other than a slash; the group is the longest run
  of such characters.
\<close>

definition not_slash :: "char \<Rightarrow> bool" where
  "not_slash c = (c \<noteq> CHR ''/'')"

fun extractG2Slug :: "string \<Rightarrow> string option" where
  "extractG2Slug [] = None"
| "extractG2Slug (c # cs) =
     (if startsWith (c # cs) ''g2.com/products/''
         \<and> takeWhile not_slash (drop 16 (c # cs)) \<noteq> []
      then Some (takeWhile not_slash (drop 16 (c # cs)))
      else extractG2Slug cs)"

definition is_digit :: "char \<Rightarrow> bool" where
  "is_digit c = (c \<in> set ''0123456789'')"

text \<open>
  \<open>url.match(/capterra\.com\/p\/\d+\/([^/]+)/)\<close>, lowercased: after the literal, the
  whole run of digits (at least one), a slash, and the group.
\<close>

definition capterra_group :: "string \<Rightarrow> string option" where
  "capterra_group rest =
     (let digits = takeWhile is_digit rest; after = dropWhile is_digit rest in
      if digits = [] then None
      else case after of
        [] \<Rightarrow> None
      | c # cs \<Rightarrow>
          if c = CHR ''/'' \<and> takeWhile not_slash cs \<noteq> [] then Some (takeWhile not_slash cs)
          else None)"

fun capterra_match :: "string \<Rightarrow> string option" where
  "capterra_match [] = None"
| "capterra_match (c # cs) =
     (if startsWith (c # cs) ''capterra.com/p/''
      then (case capterra_group (drop 15 (c # cs)) of
              Some g \<Rightarrow> Some g
            | None \<Rightarrow> capterra_match cs)
      else capterra_match cs)"

definition extractCapterraSlug :: "string \<Rightarrow> string option" where
  "extractCapterraSlug url = map_option toLowerCase (capterra_match url)"

text \<open>
  \<open>mappings.vendors\<close> is the list of its entries, in the order of \<open>Object.entries\<close>.
\<close>

type_synonym mappings = "(string \<times> vendor_mapping) list"

fun mapToVendorSlug :: "string \<Rightarrow> source \<Rightarrow> mappings \<Rightarrow> string option" where
  "mapToVendorSlug platformSlug src [] = None"
| "mapToVendorSlug platformSlug src ((vendorSlug, mapping) # rest) =
     (case platform_of src mapping of
        None \<Rightarrow> mapToVendorSlug platformSlug src rest
      | Some platformMapping \<Rightarrow>
          if \<not> truthy_str (pm_slug platformMapping) then mapToVendorSlug platformSlug src rest
          else if toLowerCase (the (pm_slug platformMapping)) = toLowerCase platformSlug
          then Some vendorSlug
          else mapToVendorSlug platformSlug src rest)"

definition calculateAggregate :: "review_source list \<Rightarrow> jsnum option" where
  "calculateAggregate srcs =
     (if srcs = [] then None
      else let totalCount = foldl (\<lambda>sum s. js_add sum (or_zero (rs_count s))) (Fin 0) srcs in
        if totalCount = Fin 0 then None
        else let weightedSum =
                   foldl (\<lambda>sum s. js_add sum (js_mul (or_zero (rs_score s)) (or_zero (rs_count s))))
                     (Fin 0) srcs in
          Some (js_div (js_round (js_mul (js_div weightedSum totalCount) (Fin 10))) (Fin 10)))"

text \<open>
  The values a run closes over: the date, the mappings and the previous output (the
  document read from the output file, as a lookup by vendor slug).
\<close>

record run_context =
  today :: string
  vendors :: mappings
  previous :: "string \<Rightarrow> doc_review option"

definition getMappedUrl :: "mappings \<Rightarrow> string \<Rightarrow> source \<Rightarrow> string option" where
  "getMappedUrl ms vendorSlug src =
     (case map_of ms vendorSlug of
        None \<Rightarrow> None
      | Some mapping \<Rightarrow>
          (case platform_of src mapping of None \<Rightarrow> None | Some pm \<Rightarrow> pm_url pm))"

definition getPreviousSource :: "run_context \<Rightarrow> string \<Rightarrow> source \<Rightarrow> doc_source option" where
  "getPreviousSource ctx vendorSlug src =
     (case previous ctx vendorSlug of
        None \<Rightarrow> None
      | Some prev \<Rightarrow> find (\<lambda>s. d_source s = src) (d_sources prev))"

definition makeSource ::
  "run_context \<Rightarrow> string \<Rightarrow> source \<Rightarrow> jsnum \<Rightarrow> jsnum \<Rightarrow> string \<Rightarrow> review_source" where
  "makeSource ctx vendorSlug src score cnt url =
     (let prev = getPreviousSource ctx vendorSlug src;
          roundedScore = js_div (js_round (js_mul score (Fin 10))) (Fin 10);
          unchanged = (case prev of
                         None \<Rightarrow> False
                       | Some p \<Rightarrow>
                           doc_eq (d_score p) roundedScore \<and> doc_eq (d_count p) cnt
                           \<and> d_url p = url)
      in \<lparr>rs_source = src, rs_score = roundedScore, rs_count = cnt, rs_url = url,
          lastUpdated = (if unchanged then d_lastUpdated (the prev) else today ctx)\<rparr>)"

text \<open>
  What the two loops read from a raw item: the URL (\<open>productUrl\<close> first for G2,
  \<open>url\<close> first for Capterra), the score (\<open>rating\<close> first for G2, \<open>overallRating\<close>
  first for Capterra) and the count.
\<close>

definition g2_url :: "raw_item \<Rightarrow> jsval" where
  "g2_url item = js_or (productUrl item) (js_or (item_url item) (JStr []))"

definition capterra_url :: "raw_item \<Rightarrow> jsval" where
  "capterra_url item = js_or (item_url item) (js_or (productUrl item) (JStr []))"

definition g2_score :: "raw_item \<Rightarrow> jsval" where
  "g2_score item = js_nullish (rating item) (overallRating item)"

definition capterra_score :: "raw_item \<Rightarrow> jsval" where
  "capterra_score item = js_nullish (overallRating item) (rating item)"

definition item_count :: "raw_item \<Rightarrow> jsval" where
  "item_count item = js_nullish (reviewCount item) (js_nullish (totalReviews item) (JNum 0))"

text \<open>
  What one raw item resolves to: an error when \<open>url.match\<close> is called on a value that is
  not a string, nothing when the item is skipped, or the vendor slug with the score,
  the count and the review URL that are handed to \<open>makeSource\<close>. The guard is
  \<open>typeof score === 'number' && Number.isFinite(score) && typeof count === 'number' &&
  count > 0\<close>, on the doubles read from the two literals.
\<close>

type_synonym resolved = "string \<times> jsnum \<times> jsnum \<times> string"

definition g2_resolve :: "mappings \<Rightarrow> raw_item \<Rightarrow> error + resolved option" where
  "g2_resolve ms item =
     (case g2_url item of
        JStr url \<Rightarrow>
          (case extractG2Slug url of
             None \<Rightarrow> Inr None
           | Some g2Slug \<Rightarrow>
               (case mapToVendorSlug g2Slug G2 ms of
                  None \<Rightarrow> Inr None
                | Some vendorSlug \<Rightarrow>
                    if vendorSlug = [] then Inr None
                    else case (g2_score item, item_count item) of
                      (JNum score, JNum cnt) \<Rightarrow>
                        if is_finite (fl score) \<and> js_positive (fl cnt)
                        then Inr (Some (vendorSlug, fl score, fl cnt,
                               or_else (getMappedUrl ms vendorSlug G2)
                                 (''https://www.g2.com/products/'' @ g2Slug @ ''/reviews'')))
                        else Inr None
                    | _ \<Rightarrow> Inr None))
      | _ \<Rightarrow> Inl TypeError)"

definition capterra_resolve :: "mappings \<Rightarrow> raw_item \<Rightarrow> error + resolved option" where
  "capterra_resolve ms item =
     (case capterra_url item of
        JStr url \<Rightarrow>
          (case extractCapterraSlug url of
             None \<Rightarrow> Inr None
           | Some capterraSlug \<Rightarrow>
               (case mapToVendorSlug capterraSlug Capterra ms of
                  None \<Rightarrow> Inr None
                | Some vendorSlug \<Rightarrow>
                    if vendorSlug = [] then Inr None
                    else case (capterra_score item, item_count item) of
                      (JNum score, JNum cnt) \<Rightarrow>
                        if is_finite (fl score) \<and> js_positive (fl cnt)
                        then Inr (Some (vendorSlug, fl score, fl cnt,
                               or_else (getMappedUrl ms vendorSlug Capterra) url))
                        else Inr None
                    | _ \<Rightarrow> Inr None))
      | _ \<Rightarrow> Inl TypeError)"

fun resolve :: "source \<Rightarrow> mappings \<Rightarrow> raw_item \<Rightarrow> error + resolved option" where
  "resolve G2 ms item = g2_resolve ms item"
| "resolve Capterra ms item = capterra_resolve ms item"

text \<open>\<open>result\<close> is the list of its entries; \<open>result[vendorSlug].sources.push(s)\<close>.\<close>

type_synonym result = "(string \<times> aggregated_review) list"

definition push_source :: "string \<Rightarrow> review_source \<Rightarrow> result \<Rightarrow> result" where
  "push_source vendorSlug s res =
     map (\<lambda>(k, d). if k = vendorSlug then (k, d\<lparr>sources := sources d @ [s]\<rparr>) else (k, d)) res"

text \<open>The two loops over the raw items; an exception ends the run.\<close>

fun process_items :: "source \<Rightarrow> run_context \<Rightarrow> raw_item list \<Rightarrow> result \<Rightarrow> error + result" where
  "process_items src ctx [] res = Inr res"
| "process_items src ctx (item # items) res =
     (case resolve src (vendors ctx) item of
        Inl e \<Rightarrow> Inl e
      | Inr None \<Rightarrow> process_items src ctx items res
      | Inr (Some (vendorSlug, score, cnt, url)) \<Rightarrow>
          process_items src ctx items
            (push_source vendorSlug (makeSource ctx vendorSlug src score cnt url) res))"

text \<open>A raw file that is missing, unreadable or not an array is \<open>None\<close> and is skipped.\<close>

definition process_raw :: "source \<Rightarrow> run_context \<Rightarrow> raw_item list option \<Rightarrow> result \<Rightarrow> error + result" where
  "process_raw src ctx raw res =
     (case raw of None \<Rightarrow> Inr res | Some items \<Rightarrow> process_items src ctx items res)"

definition initial_result :: "run_context \<Rightarrow> result" where
  "initial_result ctx =
     map (\<lambda>(slug, m).
            (slug, \<lparr>aggregateScore = None, totalCount = Fin 0, sources = [],
                    lastAggregated =
                      or_else (map_option d_lastAggregated (previous ctx slug)) (today ctx)\<rparr>))
         (vendors ctx)"

text \<open>\<open>new Map(sources.map((s) => [s.source, s]))\<close>: a later entry replaces an earlier one.\<close>

definition bySource :: "('a \<Rightarrow> source) \<Rightarrow> 'a list \<Rightarrow> source \<Rightarrow> 'a option" where
  "bySource key srcs = foldl (\<lambda>m s. m(key s \<mapsto> s)) Map.empty srcs"

text \<open>
  The change detection of one vendor. \<open>allSources\<close> is the set of the keys of the two
  maps; the loop sets \<open>changed\<close> for an added, a removed or a changed source.
\<close>

definition source_changed :: "doc_source option \<Rightarrow> review_source option \<Rightarrow> bool" where
  "source_changed p c =
     (case (p, c) of
        (None, Some y) \<Rightarrow> True
      | (Some x, None) \<Rightarrow> True
      | (Some x, Some y) \<Rightarrow>
          \<not> doc_eq (d_score x) (rs_score y) \<or> \<not> doc_eq (d_count x) (rs_count y)
      | (None, None) \<Rightarrow> False)"

definition detect_change :: "doc_source list \<Rightarrow> review_source list \<Rightarrow> bool" where
  "detect_change prevSources currSources =
     (let prevBySource = bySource d_source prevSources;
          currBySource = bySource rs_source currSources;
          allSources = remdups (map d_source prevSources @ map rs_source currSources)
      in foldl (\<lambda>changed src.
                  if source_changed (prevBySource src) (currBySource src) then True else changed)
           False allSources)"

text \<open>
  The body of the last loop: one entry of \<open>result\<close>. The list \<open>changes\<close> and the lines
  written to the console only report what the loop found; they are not part of the output
  file and are left out.
\<close>

definition finalize :: "run_context \<Rightarrow> string \<times> aggregated_review \<Rightarrow> string \<times> aggregated_review" where
  "finalize ctx entry =
     (let slug = fst entry; data = snd entry;
          sorted = sort_key (\<lambda>s. source_rank (rs_source s)) (sources data);
          prev = previous ctx slug;
          changed = detect_change (case prev of None \<Rightarrow> [] | Some p \<Rightarrow> d_sources p) sorted
      in (slug,
          \<lparr>aggregateScore = calculateAggregate sorted,
           totalCount = foldl (\<lambda>sum s. js_add sum (rs_count s)) (Fin 0) sorted,
           sources = sorted,
           lastAggregated =
             (if changed then today ctx
              else or_else (map_option d_lastAggregated prev) (lastAggregated data))\<rparr>))"

text \<open>
  The whole run: the date, the mappings document (\<open>None\<close> when it cannot be loaded or has
  no \<open>vendors\<close>), the previous output and the two raw files. The value is \<open>result\<close> as
  it stands when it is handed to \<open>JSON.stringify\<close>.
\<close>

definition aggregate ::
  "string \<Rightarrow> mappings option \<Rightarrow> (string \<Rightarrow> doc_review option)
     \<Rightarrow> raw_item list option \<Rightarrow> raw_item list option \<Rightarrow> error + result" where
  "aggregate date mappingsDoc prevOutput g2Raw capterraRaw =
     (case mappingsDoc of
        None \<Rightarrow> Inl MappingsMissing
      | Some ms \<Rightarrow>
          let ctx = \<lparr>today = date, vendors = ms, previous = prevOutput\<rparr> in
          case process_raw G2 ctx g2Raw (initial_result ctx) of
            Inl e \<Rightarrow> Inl e
          | Inr res1 \<Rightarrow>
              (case process_raw Capterra ctx capterraRaw res1 of
                 Inl e \<Rightarrow> Inl e
               | Inr res2 \<Rightarrow> Inr (map (finalize ctx) res2)))"

text \<open>
  \<open>fs.writeFileSync(OUTPUT_PATH, JSON.stringify(result, null, 2))\<close>: the document that is
  written, and that the next run reads as its previous output.
\<close>

definition write_source :: "review_source \<Rightarrow> doc_source" where
  "write_source s =
     \<lparr>d_source = rs_source s, d_score = stringify_num (rs_score s),
      d_count = stringify_num (rs_count s), d_url = rs_url s, d_lastUpdated = lastUpdated s\<rparr>"

definition write_review :: "aggregated_review \<Rightarrow> doc_review" where
  "write_review d =
     \<lparr>d_aggregateScore = (case aggregateScore d of None \<Rightarrow> None | Some n \<Rightarrow> stringify_num n),
      d_totalCount = stringify_num (totalCount d),
      d_sources = map write_source (sources d),
      d_lastAggregated = lastAggregated d\<rparr>"

definition written :: "result \<Rightarrow> (string \<times> doc_review) list" where
  "written res = map (\<lambda>(k, d). (k, write_review d)) res"

text \<open>
  For the statements: the URL, the score and the platform slug of an item by source, the
  items of a raw file, the list of what the items of a raw file resolve to (in the order
  of the file), and the entries \<open>makeSource\<close> builds for one vendor from such a list.
\<close>

fun url_of :: "source \<Rightarrow> raw_item \<Rightarrow> jsval" where
  "url_of G2 = g2_url"
| "url_of Capterra = capterra_url"

fun score_of :: "source \<Rightarrow> raw_item \<Rightarrow> jsval" where
  "score_of G2 = g2_score"
| "score_of Capterra = capterra_score"

fun platform_slug :: "source \<Rightarrow> string \<Rightarrow> string option" where
  "platform_slug G2 = extractG2Slug"
| "platform_slug Capterra = extractCapterraSlug"

definition items_of :: "raw_item list option \<Rightarrow> raw_item list" where
  "items_of raw = (case raw of None \<Rightarrow> [] | Some items \<Rightarrow> items)"

definition resolved_items :: "source \<Rightarrow> mappings \<Rightarrow> raw_item list \<Rightarrow> resolved list" where
  "resolved_items src ms items =
     List.map_filter (\<lambda>it. case resolve src ms it of Inr (Some r) \<Rightarrow> Some r | _ \<Rightarrow> None) items"

definition made_for :: "source \<Rightarrow> run_context \<Rightarrow> string \<Rightarrow> resolved list \<Rightarrow> review_source list" where
  "made_for src ctx v rs =
     map (\<lambda>(k, score, cnt, url). makeSource ctx v src score cnt url) (filter (\<lambda>r. fst r = v) rs)"

text \<open>
  No item of a raw file makes \<open>url.match\<close> throw; and the record the run computes for
  one vendor, as a function of what the items of the two raw files resolve to.
\<close>

definition ok_items :: "source \<Rightarrow> mappings \<Rightarrow> raw_item list \<Rightarrow> bool" where
  "ok_items src ms items = list_all (\<lambda>it. \<not> isl (resolve src ms it)) items"

definition vendor_record :: "run_context \<Rightarrow> string \<Rightarrow> resolved list \<Rightarrow> resolved list \<Rightarrow> aggregated_review" where
  "vendor_record ctx k g2s caps =
     snd (finalize ctx
       (k, \<lparr>aggregateScore = None, totalCount = Fin 0,
            sources = made_for G2 ctx k g2s @ made_for Capterra ctx k caps,
            lastAggregated = or_else (map_option d_lastAggregated (previous ctx k)) (today ctx)\<rparr>))"

text \<open>Appending \<open>f k\<close> to the sources of every vendor \<open>k\<close> of a result.\<close>

definition add_sources :: "(string \<Rightarrow> review_source list) \<Rightarrow> result \<Rightarrow> result" where
  "add_sources f res = map (\<lambda>(k, d). (k, d\<lparr>sources := sources d @ f k\<rparr>)) res"

text \<open>The sources of a vendor in the previous output (none when it has no record).\<close>

definition previous_sources :: "(string \<Rightarrow> doc_review option) \<Rightarrow> string \<Rightarrow> doc_source list" where
  "previous_sources prev v = (case prev v of None \<Rightarrow> [] | Some p \<Rightarrow> d_sources p)"


text \<open>
  The words of the specification on the totals, read on exact numbers: the sum of the
  counts, and the count-weighted mean of the scores rounded to one decimal.
\<close>

fun the_fin :: "jsnum \<Rightarrow> rat" where
  "the_fin (Fin x) = x"
| "the_fin n = 0"

definition sum_counts :: "review_source list \<Rightarrow> rat" where
  "sum_counts srcs = sum_list (map (\<lambda>s. the_fin (rs_count s)) srcs)"

definition weighted_mean :: "review_source list \<Rightarrow> rat" where
  "weighted_mean srcs =
     sum_list (map (\<lambda>s. the_fin (rs_score s) * the_fin (rs_count s)) srcs) / sum_counts srcs"

definition round_one_decimal :: "rat \<Rightarrow> rat" where
  "round_one_decimal x = of_int \<lfloor>x * 10 + 1 / 2\<rfloor> / 10"

text \<open>A count that is a whole number, and a list of sources with such counts only.\<close>

fun whole_number :: "jsnum \<Rightarrow> bool" where
  "whole_number (Fin x) = (0 \<le> x \<and> x = of_int \<lfloor>x\<rfloor>)"
| "whole_number n = False"

definition whole_counts :: "review_source list \<Rightarrow> bool" where
  "whole_counts srcs = list_all (\<lambda>s. whole_number (rs_count s)) srcs"

section \<open>Review validation (validate-reviews.mjs)\<close>

text \<open>\<open>x < y\<close> on numbers.\<close>

fun js_lt :: "jsnum \<Rightarrow> jsnum \<Rightarrow> bool" where
  "js_lt NaN y = False"
| "js_lt x NaN = False"
| "js_lt (Fin a) (Fin b) = (a < b)"
| "js_lt PosInf y = False"
| "js_lt x NegInf = False"
| "js_lt NegInf y = True"
| "js_lt (Fin a) PosInf = True"

text \<open>
  The check of the score of a source entry of the aggregated reviews, on the document the
  aggregator wrote: \<open>typeof source.score !== 'number' || source.score < 0 || source.score > 5\<close>
  is reported as an error, and an error makes the validation fail.
\<close>

definition score_error :: "rat option \<Rightarrow> bool" where
  "score_error sc =
     (case sc of
        None \<Rightarrow> True
      | Some x \<Rightarrow> js_lt (fl x) (Fin 0) \<or> js_lt (Fin 5) (fl x))"

section \<open>Example inputs of the aggregator\<close>

definition item :: "jsval \<Rightarrow> jsval \<Rightarrow> jsval \<Rightarrow> raw_item" where
  "item u s c =
     \<lparr>productUrl = JUndefined, item_url = u, rating = s, overallRating = JUndefined,
      reviewCount = c, totalReviews = JUndefined\<rparr>"

definition example_mappings :: mappings where
  "example_mappings =
     [(''acme'', \<lparr>map_g2 = Some \<lparr>pm_slug = Some ''Acme-EHR'', pm_url = None\<rparr>,
                  map_capterra = Some \<lparr>pm_slug = Some ''acme'', pm_url = None\<rparr>\<rparr>),
      (''beta'', \<lparr>map_g2 = Some \<lparr>pm_slug = Some ''beta'', pm_url = Some ''https://www.g2.com/products/beta/reviews''\<rparr>,
                  map_capterra = None\<rparr>)]"

definition g2_acme :: "rat \<Rightarrow> rat \<Rightarrow> raw_item" where
  "g2_acme s c = item (JStr ''https://www.g2.com/products/acme-ehr/reviews'') (JNum s) (JNum c)"

definition capterra_acme :: "rat \<Rightarrow> rat \<Rightarrow> raw_item" where
  "capterra_acme s c = item (JStr ''https://www.capterra.com/p/12345/Acme/'') (JNum s) (JNum c)"

definition g2_beta :: "rat \<Rightarrow> rat \<Rightarrow> raw_item" where
  "g2_beta s c = item (JStr ''https://www.g2.com/products/beta'') (JNum s) (JNum c)"

definition example_run1 :: "error + result" where
  "example_run1 =
     aggregate ''2026-02-01'' (Some example_mappings) Map.empty
       (Some [g2_acme 4 10]) (Some [capterra_acme (9 / 2) 20])"

text \<open>
  An entry whose score and count are the doubles nearest to the given numbers, and the
  three review URLs of the examples.
\<close>

definition mk_source :: "source \<Rightarrow> rat \<Rightarrow> rat \<Rightarrow> string \<Rightarrow> string \<Rightarrow> review_source" where
  "mk_source src score cnt url d =
     \<lparr>rs_source = src, rs_score = fl score, rs_count = fl cnt, rs_url = url, lastUpdated = d\<rparr>"

definition acme_g2_url :: string where
  "acme_g2_url = ''https://www.g2.com/products/acme-ehr/reviews''"

definition acme_capterra_url :: string where
  "acme_capterra_url = ''https://www.capterra.com/p/12345/Acme/''"

definition beta_g2_url :: string where
  "beta_g2_url = ''https://www.g2.com/products/beta/reviews''"

definition example_acme1 :: aggregated_review where
  "example_acme1 =
     \<lparr>aggregateScore = Some (fl (43 / 10)), totalCount = Fin 30,
      sources = [mk_source Capterra (9 / 2) 20 ''https://www.capterra.com/p/12345/Acme/'' ''2026-02-01'',
                 mk_source G2 4 10 ''https://www.g2.com/products/acme-ehr/reviews'' ''2026-02-01''],
      lastAggregated = ''2026-02-01''\<rparr>"

definition example_empty :: "string \<Rightarrow> aggregated_review" where
  "example_empty d = \<lparr>aggregateScore = None, totalCount = Fin 0, sources = [], lastAggregated = d\<rparr>"

definition example_out1 :: result where
  "example_out1 = [(''acme'', example_acme1), (''beta'', example_empty ''2026-02-01'')]"




text \<open>Two G2 items that resolve to the same vendor.\<close>

definition example_twice :: "raw_item list" where
  "example_twice = [g2_acme 4 10, g2_acme 5 20]"

definition example_twice_acme :: "string \<Rightarrow> aggregated_review" where
  "example_twice_acme d =
     \<lparr>aggregateScore = Some (fl (47 / 10)), totalCount = Fin 30,
      sources = [mk_source G2 4 10 ''https://www.g2.com/products/acme-ehr/reviews'' ''2026-02-01'',
                 mk_source G2 5 20 ''https://www.g2.com/products/acme-ehr/reviews'' d],
      lastAggregated = ''2026-02-01''\<rparr>"

definition example_twice_out :: "string \<Rightarrow> result" where
  "example_twice_out d = [(''acme'', example_twice_acme d), (''beta'', example_empty ''2026-02-01'')]"

text \<open>An item with a negative score.\<close>

definition example_negative :: aggregated_review where
  "example_negative =
     \<lparr>aggregateScore = Some (Fin (- 1)), totalCount = Fin 5,
      sources = [mk_source G2 (- 1) 5 ''https://www.g2.com/products/beta/reviews'' ''2026-02-01''],
      lastAggregated = ''2026-02-01''\<rparr>"

text \<open>
  Three sources of one vendor, 3.5 (1 review), 3.9 (1 review) and 4.6 (2 reviews), with the
  two G2 items in either order.
\<close>

definition example_order :: "raw_item list" where
  "example_order = [g2_acme (39 / 10) 1, g2_acme (23 / 5) 2]"

definition example_order_acme :: "rat \<Rightarrow> review_source list \<Rightarrow> aggregated_review" where
  "example_order_acme score g2 =
     \<lparr>aggregateScore = Some (fl score), totalCount = Fin 4,
      sources = mk_source Capterra (7 / 2) 1 acme_capterra_url ''2026-02-01'' # g2,
      lastAggregated = ''2026-02-01''\<rparr>"

definition example_order_g2 :: "review_source list" where
  "example_order_g2 =
     [mk_source G2 (39 / 10) 1 acme_g2_url ''2026-02-01'',
      mk_source G2 (23 / 5) 2 acme_g2_url ''2026-02-01'']"

text \<open>A count of \<open>2 ^ 53\<close> beside a count of 1.\<close>

definition example_huge :: aggregated_review where
  "example_huge =
     \<lparr>aggregateScore = Some (Fin 4), totalCount = Fin 9007199254740992,
      sources = [mk_source Capterra 4 1 acme_capterra_url ''2026-02-01'',
                 mk_source G2 4 9007199254740992 acme_g2_url ''2026-02-01''],
      lastAggregated = ''2026-02-01''\<rparr>"

text \<open>A count written \<open>1e309\<close>, which reads as \<open>Infinity\<close>.\<close>

definition infinite_items :: "raw_item list" where
  "infinite_items = [g2_beta 4 (10 ^ 309)]"

definition example_infinite :: "string \<Rightarrow> aggregated_review" where
  "example_infinite d =
     \<lparr>aggregateScore = Some NaN, totalCount = PosInf,
      sources = [\<lparr>rs_source = G2, rs_score = Fin 4, rs_count = PosInf, rs_url = beta_g2_url,
                  lastUpdated = d\<rparr>],
      lastAggregated = d\<rparr>"

definition example_infinite_out :: "string \<Rightarrow> result" where
  "example_infinite_out d = [(''acme'', example_empty ''2026-02-01''), (''beta'', example_infinite d)]"

text \<open>
  A previous output and a run for the stamps of four vendors: acme with one previous G2
  entry and two current ones, beta with two previous G2 entries and one current one, gamma
  with no previous record, delta with a previous record that has no stamp.
\<close>

definition stamp_mappings :: mappings where
  "stamp_mappings =
     example_mappings @
     [(''gamma'', \<lparr>map_g2 = Some \<lparr>pm_slug = Some ''gamma'', pm_url = None\<rparr>, map_capterra = None\<rparr>),
      (''delta'', \<lparr>map_g2 = Some \<lparr>pm_slug = Some ''delta'', pm_url = None\<rparr>, map_capterra = None\<rparr>)]"

definition doc_g2 :: "rat \<Rightarrow> rat \<Rightarrow> string \<Rightarrow> string \<Rightarrow> doc_source" where
  "doc_g2 score cnt url d =
     \<lparr>d_source = G2, d_score = Some score, d_count = Some cnt, d_url = url, d_lastUpdated = d\<rparr>"






section \<open>The classifier\<close>

lemma hasKetamineKeyword_iff:
  "hasKetamineKeyword r \<longleftrightarrow>
     (\<exists>m \<in> set (evidence_matches (ketamine_evidence r)).
        keyword m \<in> {''ketamine'', ''spravato'', ''esketamine''})"
  by (cases "ketamine_evidence r") (auto simp: hasKetamineKeyword_def evidence_matches_def list_ex_iff)

text \<open>
  Claim C5. The category and the confidence that \<open>classifyVendor\<close> returns are those of the
  first rule that matches: website down gives unknown/low; a ketamine count of at least
  5 with a match of one of the strong keywords (ketamine, spravato, esketamine) gives
  ketamine_specific/high; a ketamine count of at least 1 or a psychiatry count of at
  least 3 gives ketamine_compatible, medium when the ketamine count is positive and low
  otherwise; everything else gives general_ehr/high.
\<close>

theorem classifyVendor_first_match:
  "(classification (classifyVendor r), confidence (classifyVendor r)) =
     (if \<not> website_live r then (unknown, low)
      else if ketamineCount r \<ge> 5
              \<and> (\<exists>m \<in> set (evidence_matches (ketamine_evidence r)).
                    keyword m \<in> {''ketamine'', ''spravato'', ''esketamine''})
        then (ketamine_specific, high)
      else if ketamineCount r \<ge> 1 \<or> psychiatryCount r \<ge> 3
        then (ketamine_compatible, if ketamineCount r > 0 then medium else low)
      else (general_ehr, high))"
  unfolding hasKetamineKeyword_iff [symmetric]
  by (simp add: classifyVendor_def)

text \<open>The four literal cases of the specification, each read off the theorem.\<close>

theorem classifyVendor_first_match_witness:
  "(classification (classifyVendor (report_of True 5 [''ketamine''] 0)),
    confidence (classifyVendor (report_of True 5 [''ketamine''] 0))) = (ketamine_specific, high)
   \<and> (classification (classifyVendor (report_of True 0 [] 3)),
      confidence (classifyVendor (report_of True 0 [] 3))) = (ketamine_compatible, low)
   \<and> (classification (classifyVendor (report_of True 0 [] 0)),
      confidence (classifyVendor (report_of True 0 [] 0))) = (general_ehr, high)
   \<and> (classification (classifyVendor (report_of False 9 [''ketamine''] 9)),
      confidence (classifyVendor (report_of False 9 [''ketamine''] 9))) = (unknown, low)"
  using classifyVendor_first_match [of "report_of True 5 [''ketamine''] 0"]
        classifyVendor_first_match [of "report_of True 0 [] 3"]
        classifyVendor_first_match [of "report_of True 0 [] 0"]
        classifyVendor_first_match [of "report_of False 9 [''ketamine''] 9"]
  by (simp add: report_of_def ketamineCount_def psychiatryCount_def evidence_matches_def)

section \<open>Capability flags of a candidate entry\<close>

lemma classifyVendor_no_inferred_features: "inferred_features (classifyVendor r) = None"
  by (simp add: classifyVendor_def)

text \<open>
  \<open>runAcquisition\<close> passes the result of \<open>classifyVendor\<close> to \<open>generateSoftwareEntry\<close>;
  that object never has the key \<open>inferred_features\<close>, so every candidate entry gets the
  all-false default.
\<close>

lemma processNewVendor_features: "e_ketamine_features (processNewVendor env v) = no_features"
  by (simp add: processNewVendor_def generateSoftwareEntry_def Let_def
        classifyVendor_no_inferred_features)

text \<open>
  Claim C9 says that the \<open>ketamine_features\<close> of a candidate entry with a live website are
  the flags \<open>inferKetamineFeatures\<close> computes from its verification report. The code
  does otherwise: for a live site whose text mentions spravato, the inference sets
  \<open>spravato_workflows\<close>, and so does the verify-only path (\<open>classifyAllVendors\<close>), but
  the candidate entry has the flag false.
\<close>

theorem processNewVendor_ignores_inference:
  "website_live (verifyVendor (live_env ''spravato rems'') acme)
   \<and> spravato_workflows (inferKetamineFeatures (verifyVendor (live_env ''spravato rems'') acme))
   \<and> \<not> spravato_workflows (e_ketamine_features (processNewVendor (live_env ''spravato rems'') acme))
   \<and> inferred_features (classifyAllVendors_entry (verifyVendor (live_env ''spravato rems'') acme))
       = Some (inferKetamineFeatures (verifyVendor (live_env ''spravato rems'') acme))"
  by code_simp

section \<open>The status of a verification report\<close>

text \<open>
  Claim C10, as stated, says that for a reachable website the Evidence Collector never
  assigns verified or needs_review itself. It does: the site below answers the probe,
  and \<open>verifyVendor\<close> returns the status needs_review.
\<close>

theorem verifyVendor_assigns_status:
  "ws_ok (checkWebsite (env_head (live_env ''spravato rems'')) (website_of acme))
   \<and> vr_status (verifyVendor (live_env ''spravato rems'') acme) = needs_review"
  by code_simp

text \<open>
  Claim C10, amended. The status of the report of \<open>verifyVendor\<close> is unverified exactly
  when the probe threw or answered with a non-success status; for every other vendor
  \<open>verifyVendor\<close> itself sets verified when the ketamine count is at least 5 or the
  psychiatry count at least 3, and needs_review otherwise.
\<close>

theorem verifyVendor_status:
  "(vr_status (verifyVendor env v) = unverified \<longleftrightarrow>
      (\<exists>msg. env_head env (website_of v) = Threw msg)
      \<or> (\<exists>st. env_head env (website_of v) = Responded False st))
   \<and> (vr_status (verifyVendor env v) \<noteq> unverified \<longrightarrow>
        vr_status (verifyVendor env v) =
          (if ketamineCount (verifyVendor env v) \<ge> 5 \<or> psychiatryCount (verifyVendor env v) \<ge> 3
           then verified else needs_review))"
  by (cases "env_head env (website_of v)")
     (auto simp: verifyVendor_def checkWebsite_def Let_def ketamineCount_def psychiatryCount_def
           split: prod.splits)

theorem verifyVendor_status_witness:
  "vr_status (verifyVendor down_env acme) = unverified
   \<and> env_head down_env (website_of acme) = Responded False 503
   \<and> vr_status (verifyVendor (live_env ''spravato rems'') acme) = needs_review
   \<and> vr_status (verifyVendor (live_env ''rems rems rems rems rems'') acme) = verified"
proof -
  have a: "env_head down_env (website_of acme) = Responded False 503"
    by (simp add: down_env_def)
  have b: "env_head (live_env h) (website_of acme) = Responded True 200" for h
    by (simp add: live_env_def)
  have c: "ketamineCount (verifyVendor (live_env ''spravato rems'') acme) = 2
           \<and> psychiatryCount (verifyVendor (live_env ''spravato rems'') acme) = 0"
    by code_simp
  have d: "ketamineCount (verifyVendor (live_env ''rems rems rems rems rems'') acme) = 5"
    by code_simp
  show ?thesis
    using verifyVendor_status [of down_env acme]
          verifyVendor_status [of "live_env ''spravato rems''" acme]
          verifyVendor_status [of "live_env ''rems rems rems rems rems''" acme]
          a b c d
    by simp
qed

section \<open>The deduplicator\<close>

lemma vendorExists_find:
  "vendorExists h c es =
     (case find (duplicate_of h c) es of
        None \<Rightarrow> NotExists
      | Some e \<Rightarrow> Exists (if name_match c e then ''name match'' else ''domain match'') (v_slug e))"
  unfolding vendorExists_def
  by (induction es)
     (auto simp: duplicate_of_def name_match_def domain_match_def truthy_str_def Let_def
           split: option.splits)

lemma find_accepted:
  "(find P xs = None) = (\<not> (\<exists>x \<in> set xs. P x))"
  by (auto simp: find_None_iff)

text \<open>
  Claim C6, as stated, fails in two places. The fourth candidate has the normalized name
  of the accepted third one: it is rejected, and the line logged for it names neither
  the reason nor a slug. The fifth has that name too and no website: it is skipped for
  the missing website, not as a duplicate.
\<close>

theorem filterNewVendors_example:
  "filterNewVendors example_hostname example_registry example_batch [] =
     ([mk_vendor ''Beta'' None (Some ''https://Beta.example/'')],
      [''Skipping Acme Health!: name match (acme-health)'',
       ''Skipping Acme Two: domain match (acme-health)'',
       ''Skipping beta: duplicate in discovered list'',
       ''Skipping BETA: no website''])
   \<and> name_match (mk_vendor ''beta'' None (Some ''https://beta-two.example''))
        (mk_vendor ''Beta'' None (Some ''https://Beta.example/''))
   \<and> \<not> str_includes ''Skipping beta: duplicate in discovered list'' ''name match''
   \<and> name_match (mk_vendor ''BETA'' None None)
        (mk_vendor ''Beta'' None (Some ''https://Beta.example/''))"
  by code_simp

text \<open>
  Claim C6, amended. Candidates are taken in input order (the G2 list, then the Capterra
  list). A candidate with no website is skipped before any comparison. Any other
  candidate is rejected exactly when it duplicates a vendor of the registry or a
  candidate accepted before it: same normalized name, or both websites have a hostname
  and the two, without a leading \<open>www.\<close>, are equal and not empty. The registry is
  searched first, and a rejection against it logs the reason and the slug of the first
  vendor that matches; a rejection against the batch logs only that the candidate is a
  duplicate in the discovered list.
\<close>

theorem filterNewVendors_in_order:
  assumes "g2Vendors @ capterraVendors = cs @ [c]"
  shows "filterNewVendors h registry g2Vendors capterraVendors =
     (let accepted = fst (filterNewVendors h registry cs []);
          lines = snd (filterNewVendors h registry cs [])
      in if \<not> truthy_str (v_website c)
         then (accepted, lines @ [''Skipping '' @ v_name c @ '': no website''])
         else case find (duplicate_of h c) registry of
           Some e \<Rightarrow> (accepted, lines @ [registry_line c e])
         | None \<Rightarrow>
             if \<exists>e \<in> set accepted. duplicate_of h c e
             then (accepted, lines @ [''Skipping '' @ v_name c @ '': duplicate in discovered list''])
             else (accepted @ [c], lines))"
proof -
  let ?st = "filterNewVendors h registry cs []"
  have step: "filterNewVendors h registry g2Vendors capterraVendors = filter_step h registry ?st c"
    by (simp add: filterNewVendors_def assms)
  show ?thesis
  proof (cases "truthy_str (v_website c)")
    case False
    then show ?thesis by (simp add: step filter_step_def Let_def)
  next
    case live: True
    show ?thesis
    proof (cases "find (duplicate_of h c) registry")
      case (Some e)
      then show ?thesis
        by (simp add: step filter_step_def Let_def live vendorExists_find registry_line_def)
    next
      case None
      have reg: "vendorExists h c registry = NotExists"
        by (simp add: vendorExists_find None)
      show ?thesis
      proof (cases "find (duplicate_of h c) (fst ?st)")
        case inner: None
        have ve: "vendorExists h c (fst ?st) = NotExists"
          by (simp add: vendorExists_find inner)
        have no: "\<not> (\<exists>e \<in> set (fst ?st). duplicate_of h c e)"
          using inner find_accepted [of "duplicate_of h c" "fst ?st"] by blast
        show ?thesis
          unfolding step filter_step_def Let_def
          using no by (simp add: live reg ve None)
      next
        case inner: (Some e)
        have ve: "vendorExists h c (fst ?st) =
                    Exists (if name_match c e then ''name match'' else ''domain match'') (v_slug e)"
          by (simp add: vendorExists_find inner)
        have yes: "\<exists>e \<in> set (fst ?st). duplicate_of h c e"
          using find_accepted [of "duplicate_of h c" "fst ?st"] inner by auto
        show ?thesis
          unfolding step filter_step_def Let_def
          using yes by (simp add: live reg ve None)
      qed
    qed
  qed
qed

theorem filterNewVendors_in_order_witness:
  "filterNewVendors example_hostname example_registry example_batch [] =
     (fst (filterNewVendors example_hostname example_registry (butlast example_batch) []),
      snd (filterNewVendors example_hostname example_registry (butlast example_batch) [])
        @ [''Skipping BETA: no website''])
   \<and> filterNewVendors example_hostname example_registry (take 2 example_batch) [] =
     (fst (filterNewVendors example_hostname example_registry (take 1 example_batch) []),
      snd (filterNewVendors example_hostname example_registry (take 1 example_batch) [])
        @ [''Skipping Acme Two: domain match (acme-health)''])"
proof -
  have a: "example_batch @ [] = butlast example_batch @ [mk_vendor ''BETA'' None None]"
    by (simp add: example_batch_def)
  have b: "take 2 example_batch @ [] =
       take 1 example_batch @ [mk_vendor ''Acme Two'' None (Some ''https://www.acme.io/pricing'')]"
    by (simp add: example_batch_def)
  have c: "find (duplicate_of example_hostname
              (mk_vendor ''Acme Two'' None (Some ''https://www.acme.io/pricing''))) example_registry
           = Some (mk_vendor ''acme health'' (Some ''acme-health'') (Some ''https://acme.io''))"
    by code_simp
  have d: "registry_line (mk_vendor ''Acme Two'' None (Some ''https://www.acme.io/pricing''))
             (mk_vendor ''acme health'' (Some ''acme-health'') (Some ''https://acme.io''))
           = ''Skipping Acme Two: domain match (acme-health)''"
    by code_simp
  show ?thesis
    using filterNewVendors_in_order [OF a, of example_hostname example_registry]
          filterNewVendors_in_order [OF b, of example_hostname example_registry] c d
    by (simp add: mk_vendor_def truthy_str_def Let_def)
qed

section \<open>Rounding to a double\<close>

lemma pow2_pos: "0 < pow2 e"
  by (simp add: pow2_def)

lemma pow2_add1: "pow2 (e + 1) = 2 * pow2 e"
proof (cases "e \<ge> 0")
  case True
  then show ?thesis by (simp add: pow2_def nat_add_distrib)
next
  case False
  then have "nat (- e) = Suc (nat (- (e + 1)))" by simp
  with False show ?thesis by (cases "e + 1 \<ge> 0") (auto simp: pow2_def)
qed

lemma pow2_mono: "e \<le> e' \<Longrightarrow> pow2 e \<le> pow2 e'"
proof -
  have step: "pow2 e \<le> pow2 (e + int n)" for n
  proof (induction n)
    case 0
    then show ?case by simp
  next
    case (Suc n)
    have "pow2 (e + int (Suc n)) = 2 * pow2 (e + int n)"
      using pow2_add1 [of "e + int n"] by (simp add: algebra_simps)
    with Suc pow2_pos [of "e + int n"] show ?case by simp
  qed
  assume "e \<le> e'"
  then have "e' = e + int (nat (e' - e))" by simp
  with step [of "nat (e' - e)"] show ?thesis by simp
qed

lemma pow2_of_nat: "pow2 (int n) = 2 ^ n"
  by (simp add: pow2_def)

lemma ilog2_bounds:
  assumes "0 < a"
  shows "pow2 (ilog2 a) \<le> a \<and> a < pow2 (ilog2 a + 1)"
proof (cases "a \<ge> 1")
  case True
  let ?n = "\<lfloor>a\<rfloor>"
  have n: "?n > 0" using True by linarith
  from bitlen_bounds [OF n] have lo: "(2::int) ^ nat (bitlen ?n - 1) \<le> ?n" and hi: "?n < 2 ^ nat (bitlen ?n)" by auto
  have bl: "bitlen ?n \<ge> 1"
  proof (rule ccontr)
    assume "\<not> bitlen ?n \<ge> 1"
    then have "nat (bitlen ?n) = 0" by simp
    with hi n show False by simp
  qed
  have "pow2 (bitlen ?n - 1) = of_int (2 ^ nat (bitlen ?n - 1))"
    using bl by (simp add: pow2_def)
  also have "\<dots> \<le> of_int ?n" using lo by (simp only: of_int_le_iff)
  also have "\<dots> \<le> a" by simp
  finally have a1: "pow2 (bitlen ?n - 1) \<le> a" .
  have "?n + 1 \<le> 2 ^ nat (bitlen ?n)" using hi by simp
  then have "(of_int (?n + 1) :: rat) \<le> of_int (2 ^ nat (bitlen ?n))" by (simp only: of_int_le_iff)
  moreover have "a < of_int (?n + 1)" by linarith
  ultimately have "a < of_int (2 ^ nat (bitlen ?n))" by linarith
  also have "\<dots> = pow2 (bitlen ?n - 1 + 1)" using bl by (simp add: pow2_def)
  finally have a2: "a < pow2 (bitlen ?n - 1 + 1)" .
  from a1 a2 True show ?thesis by (simp add: ilog2_def)
next
  case False
  let ?b = "1 / a"
  let ?c = "\<lceil>?b\<rceil>"
  let ?k = "bitlen (?c - 1)"
  from False assms have b: "?b > 1" by simp
  then have c: "?c - 1 > 0" by linarith
  from bitlen_bounds [OF c] have lo: "(2::int) ^ nat (?k - 1) \<le> ?c - 1" and hi: "?c - 1 < 2 ^ nat ?k" by auto
  have k: "?k \<ge> 1"
  proof (rule ccontr)
    assume "\<not> ?k \<ge> 1"
    then have "nat ?k = 0" by simp
    with hi c show False by simp
  qed
  have "?c \<le> 2 ^ nat ?k" using hi by simp
  then have "(of_int ?c :: rat) \<le> of_int (2 ^ nat ?k)" by (simp only: of_int_le_iff)
  moreover have "?b \<le> of_int ?c" by simp
  ultimately have "?b \<le> of_int (2 ^ nat ?k)" by (rule order_trans [rotated])
  then have "?b \<le> 2 ^ nat ?k" by simp
  then have "1 \<le> a * 2 ^ nat ?k" using assms by (simp add: field_simps)
  then have a1: "pow2 (- ?k) \<le> a" using k by (simp add: pow2_def field_simps)
  have "(of_int (2 ^ nat (?k - 1)) :: rat) \<le> of_int (?c - 1)" using lo by (simp only: of_int_le_iff)
  moreover have "(of_int (?c - 1) :: rat) < ?b" by linarith
  ultimately have "(of_int (2 ^ nat (?k - 1)) :: rat) < ?b" by (rule le_less_trans)
  then have "2 ^ nat (?k - 1) < ?b" by simp
  then have "a * 2 ^ nat (?k - 1) < 1" using assms by (simp add: field_simps)
  then have "a < 1 / 2 ^ nat (?k - 1)" by (simp add: field_simps)
  moreover have "pow2 (- ?k + 1) = 1 / 2 ^ nat (?k - 1)"
    using k by (cases "?k = 1") (auto simp: pow2_def)
  ultimately have a2: "a < pow2 (- ?k + 1)" by (simp only:)
  from a1 a2 False show ?thesis by (simp add: ilog2_def)
qed

lemma ilog2_unique:
  assumes "0 < a" and "pow2 e \<le> a" and "a < pow2 (e + 1)"
  shows "ilog2 a = e"
proof (rule ccontr)
  assume ne: "ilog2 a \<noteq> e"
  from ilog2_bounds [OF assms(1)] have lo: "pow2 (ilog2 a) \<le> a" and hi: "a < pow2 (ilog2 a + 1)" by auto
  show False
  proof (cases "ilog2 a < e")
    case True
    then have "pow2 (ilog2 a + 1) \<le> pow2 e" by (intro pow2_mono) simp
    with hi assms(2) show False by simp
  next
    case False
    with ne have "pow2 (e + 1) \<le> pow2 (ilog2 a)" by (intro pow2_mono) simp
    with lo assms(3) show False by simp
  qed
qed

lemma round_half_even_cert:
  assumes "of_int m - 1 / 2 < r" and "r < of_int m + 1 / 2"
  shows "round_half_even r = m"
proof (cases "of_int m \<le> r")
  case True
  with assms have f: "\<lfloor>r\<rfloor> = m" by linarith
  with assms show ?thesis by (simp add: round_half_even_def Let_def)
next
  case False
  with assms have f: "\<lfloor>r\<rfloor> = m - 1" by linarith
  with assms show ?thesis by (simp add: round_half_even_def Let_def)
qed

lemma round_half_even_ge: "of_int n \<le> r \<Longrightarrow> n \<le> round_half_even r"
proof -
  assume "of_int n \<le> r"
  then have "n \<le> \<lfloor>r\<rfloor>" by linarith
  then show ?thesis by (simp add: round_half_even_def Let_def)
qed

lemma fl_cert:
  assumes "0 < a" and "pow2 e \<le> a" and "a < pow2 (e + 1)"
    and "q = pow2 (max e (- 1022) - 52)"
    and "of_int m - 1 / 2 < a / q" and "a / q < of_int m + 1 / 2"
    and "of_int m * q < pow2 1024"
  shows "fl a = Fin (of_int m * q)" and "fl (- a) = Fin (- (of_int m * q))"
proof -
  have e: "ilog2 a = e" by (rule ilog2_unique [OF assms(1,2,3)])
  have m: "round_half_even (a / q) = m" by (rule round_half_even_cert [OF assms(5,6)])
  from assms(1) show "fl a = Fin (of_int m * q)"
    using assms(7) by (simp add: fl_def Let_def e m assms(4) [symmetric])
  from assms(1) show "fl (- a) = Fin (- (of_int m * q))"
    using assms(7) by (simp add: fl_def Let_def e m assms(4) [symmetric])
qed

lemma pow2_powi: "pow2 e = 2 powi e"
  by (simp add: pow2_def power_int_def inverse_eq_divide power_one_over)

lemma pow2_add: "pow2 (a + b) = pow2 a * pow2 b"
  by (simp add: pow2_powi power_int_add)

lemma fl_overflow:
  assumes "pow2 1024 \<le> a"
  shows "fl a = PosInf" and "fl (- a) = NegInf"
proof -
  have pos: "0 < a" using assms pow2_pos [of 1024] by linarith
  let ?e = "ilog2 a"
  let ?q = "pow2 (?e - 52)"
  from ilog2_bounds [OF pos] have lo: "pow2 ?e \<le> a" and hi: "a < pow2 (?e + 1)" by auto
  have big: "1024 \<le> ?e"
  proof (rule ccontr)
    assume "\<not> 1024 \<le> ?e"
    then have "pow2 (?e + 1) \<le> pow2 1024" by (intro pow2_mono) simp
    with hi assms show False by simp
  qed
  then have mx: "max ?e (- 1022) = ?e" by simp
  have split: "pow2 ?e = 2 ^ 52 * ?q"
    using pow2_add [of 52 "?e - 52"] by (simp add: pow2_def)
  have q: "0 < ?q" by (rule pow2_pos)
  have "(2 ^ 52 :: rat) \<le> a / ?q"
    using lo q by (simp add: split field_simps)
  then have "of_int (2 ^ 52) \<le> a / ?q" by simp
  then have "2 ^ 52 \<le> round_half_even (a / ?q)" by (rule round_half_even_ge)
  then have "(of_int (2 ^ 52) :: rat) \<le> of_int (round_half_even (a / ?q))"
    by (simp only: of_int_le_iff)
  then have "2 ^ 52 * ?q \<le> of_int (round_half_even (a / ?q)) * ?q"
    using q by simp
  then have "pow2 ?e \<le> of_int (round_half_even (a / ?q)) * ?q"
    by (simp only: split)
  moreover have "pow2 1024 \<le> pow2 ?e" using big by (rule pow2_mono)
  ultimately have r: "pow2 1024 \<le> of_int (round_half_even (a / ?q)) * ?q" by linarith
  from pos r show "fl a = PosInf" by (simp add: fl_def Let_def mx)
  from pos r show "fl (- a) = NegInf" by (simp add: fl_def Let_def mx)
qed

lemma fl_not_NaN [simp]: "fl x \<noteq> NaN"
  by (simp add: fl_def Let_def)

text \<open>A tie goes to the even significand.\<close>

lemma round_half_even_tie: "round_half_even (of_int f + 1 / 2) = (if even f then f else f + 1)"
proof -
  have "\<lfloor>(of_int f :: rat) + 1 / 2\<rfloor> = f" by linarith
  then show ?thesis by (simp add: round_half_even_def Let_def)
qed

lemma fl_cert_tie:
  assumes "0 < a" and "pow2 e \<le> a" and "a < pow2 (e + 1)"
    and "q = pow2 (max e (- 1022) - 52)"
    and "a / q = of_int f + 1 / 2" and "m = (if even f then f else f + 1)"
    and "of_int m * q < pow2 1024"
  shows "fl a = Fin (of_int m * q)"
proof -
  have e: "ilog2 a = e" by (rule ilog2_unique [OF assms(1,2,3)])
  have m: "round_half_even (a / q) = m"
    unfolding assms(5) assms(6) by (rule round_half_even_tie)
  from assms(1) show "fl a = Fin (of_int m * q)"
    using assms(7) by (simp add: fl_def Let_def e m assms(4) [symmetric])
qed

text \<open>
  The certificate of a double: the binary exponent \<open>e\<close> of the number and the significand
  \<open>m\<close> (for a tie, the integer \<open>f\<close> below it).
\<close>

lemma fl_value:
  assumes "0 < a" and "pow2 e \<le> a" and "a < pow2 (e + 1)"
    and "of_int m - 1 / 2 < a / pow2 (max e (- 1022) - 52)"
    and "a / pow2 (max e (- 1022) - 52) < of_int m + 1 / 2"
    and "of_int m * pow2 (max e (- 1022) - 52) < pow2 1024"
    and "r = of_int m * pow2 (max e (- 1022) - 52)"
  shows "fl a = Fin r"
  unfolding assms(7) by (rule fl_cert(1) [OF assms(1,2,3) refl assms(4,5,6)])

lemma fl_value_tie:
  assumes "0 < a" and "pow2 e \<le> a" and "a < pow2 (e + 1)"
    and "a / pow2 (max e (- 1022) - 52) = of_int f + 1 / 2"
    and "of_int (if even f then f else f + 1) * pow2 (max e (- 1022) - 52) < pow2 1024"
    and "r = of_int (if even f then f else f + 1) * pow2 (max e (- 1022) - 52)"
  shows "fl a = Fin r"
  unfolding assms(6) by (rule fl_cert_tie [OF assms(1,2,3) refl assms(4) refl assms(5)])

text \<open>Every whole number below \<open>2 ^ 53\<close> is a double.\<close>

lemma fl_of_nat:
  assumes "n < 2 ^ 53"
  shows "fl (of_nat n) = Fin (of_nat n)"
proof (cases "n = 0")
  case True
  then show ?thesis by (simp add: fl_def)
next
  case False
  let ?a = "of_nat n :: rat"
  let ?e = "ilog2 ?a"
  have pos: "0 < ?a" using False by simp
  from ilog2_bounds [OF pos] have lo: "pow2 ?e \<le> ?a" and hi: "?a < pow2 (?e + 1)" by auto
  have "?a < 2 ^ 53" using assms by (metis of_nat_less_iff of_nat_numeral of_nat_power)
  then have a53: "?a < pow2 53" by (simp add: pow2_def)
  have e52: "?e \<le> 52"
  proof (rule ccontr)
    assume "\<not> ?e \<le> 52"
    then have "pow2 53 \<le> pow2 ?e" by (intro pow2_mono) simp
    with lo a53 show False by simp
  qed
  have one: "1 \<le> ?a" using False by (simp add: Suc_le_eq)
  have e0: "0 \<le> ?e"
  proof (rule ccontr)
    assume "\<not> 0 \<le> ?e"
    then have "pow2 (?e + 1) \<le> pow2 0" by (intro pow2_mono) simp
    with hi one show False by (simp add: pow2_def)
  qed
  let ?k = "nat (52 - ?e)"
  let ?q = "pow2 (max ?e (- 1022) - 52)"
  let ?m = "int n * 2 ^ ?k"
  have q: "?q = 1 / 2 ^ ?k"
    using e0 e52 by (cases "?e = 52") (simp_all add: pow2_def)
  have aq: "?a / ?q = of_int ?m" by (simp add: q)
  have mq: "of_int ?m * ?q = ?a" by (simp add: q)
  have "?a < pow2 1024" using a53 pow2_mono [of 53 1024] by simp
  then have c3: "of_int ?m * ?q < pow2 1024" by (simp only: mq)
  have c1: "of_int ?m - 1 / 2 < ?a / ?q" and c2: "?a / ?q < of_int ?m + 1 / 2"
    unfolding aq by simp_all
  have "fl ?a = Fin (of_int ?m * ?q)"
    by (rule fl_cert(1) [OF pos lo hi refl c1 c2 c3])
  then show ?thesis by (simp only: mq)
qed

lemma fl_minus:
  "fl (- x) = (case fl x of Fin y \<Rightarrow> Fin (- y) | PosInf \<Rightarrow> NegInf | NegInf \<Rightarrow> PosInf | NaN \<Rightarrow> NaN)"
  by (simp add: fl_def Let_def)

lemma fl_numeral [simp]:
  "(numeral k :: nat) < 9007199254740992 \<Longrightarrow> fl (numeral k) = Fin (numeral k)"
  "(numeral k :: nat) < 9007199254740992 \<Longrightarrow> fl (- numeral k) = Fin (- numeral k)"
  using fl_of_nat [of "numeral k"] by (simp_all add: fl_minus)

lemma fl_one [simp]: "fl 1 = Fin 1" "fl (- 1) = Fin (- 1)"
  using fl_of_nat [of 1] by (simp_all add: fl_minus)

lemma fl_zero [simp]: "fl 0 = Fin 0"
  by (simp add: fl_def)

text \<open>\<open>Math.round\<close> on a whole number, and on a value between two whole numbers.\<close>

lemma js_round_of_int: "js_round (Fin (of_int n)) = Fin (of_int n)"
proof -
  have "\<lfloor>(of_int n :: rat) + 1 / 2\<rfloor> = n" by linarith
  then show ?thesis by (simp add: js_round_def)
qed

lemma js_round_numeral [simp]:
  "js_round (Fin (numeral k)) = Fin (numeral k)"
  "js_round (Fin (- numeral k)) = Fin (- numeral k)"
  "js_round (Fin 0) = Fin 0"
  "js_round (Fin 1) = Fin 1"
  "js_round (Fin (- 1)) = Fin (- 1)"
  using js_round_of_int [of "numeral k"] js_round_of_int [of "- numeral k"]
    js_round_of_int [of 0] js_round_of_int [of 1] js_round_of_int [of "- 1"]
  by simp_all

lemma js_round_infinite [simp]:
  "js_round PosInf = PosInf" "js_round NegInf = NegInf" "js_round NaN = NaN"
  by (simp_all add: js_round_def)

lemma js_round_value:
  assumes "of_int n \<le> x + 1 / 2" and "x + 1 / 2 < of_int n + 1" and "r = of_int n"
  shows "js_round (Fin x) = Fin r"
proof -
  from assms(1,2) have "\<lfloor>x + 1 / 2\<rfloor> = n" by linarith
  then show ?thesis by (simp add: js_round_def assms(3))
qed

lemma js_round_finite: "\<exists>y. js_round (Fin x) = Fin y"
  by (simp add: js_round_def)

text \<open>Addition of doubles is commutative, and zero is neutral.\<close>

lemma js_add_commute: "js_add x y = js_add y x"
  by (cases x; cases y) (simp_all add: add.commute)

lemma js_add_zero [simp]: "js_add (Fin 0) x = x" "js_add x (Fin 0) = x"
  by (cases x; simp)+

lemma sign_inf_not_NaN [simp]: "sign_inf b \<noteq> NaN"
  by (simp add: sign_inf_def)

lemma or_zero_id: "n \<noteq> NaN \<Longrightarrow> or_zero n = n"
  by (simp add: or_zero_def)

section \<open>The aggregator\<close>

lemma finalize_fields:
  "sources (snd (finalize ctx e)) = sort_key (\<lambda>s. source_rank (rs_source s)) (sources (snd e))"
  "totalCount (snd (finalize ctx e)) =
     foldl (\<lambda>sum s. js_add sum (rs_count s)) (Fin 0) (sources (snd (finalize ctx e)))"
  "aggregateScore (snd (finalize ctx e)) = calculateAggregate (sources (snd (finalize ctx e)))"
  "fst (finalize ctx e) = fst e"
  by (simp_all add: finalize_def Let_def)

lemma made_for_Cons:
  "made_for src ctx k ((v, score, cnt, url) # rs) =
     (if v = k then [makeSource ctx v src score cnt url] else []) @ made_for src ctx k rs"
  by (simp add: made_for_def)

lemma made_for_Nil: "made_for src ctx k [] = []"
  by (simp add: made_for_def)

lemma resolved_items_Cons:
  "resolved_items src ms (it # items) =
     (case resolve src ms it of Inr (Some r) \<Rightarrow> [r] | _ \<Rightarrow> []) @ resolved_items src ms items"
  by (simp add: resolved_items_def split: sum.splits option.splits)

lemma resolved_items_Nil: "resolved_items src ms [] = []"
  by (simp add: resolved_items_def)

lemma add_sources_push:
  "add_sources f (push_source v s res) =
     add_sources (\<lambda>k. (if v = k then [s] else []) @ f k) res"
  by (simp add: add_sources_def push_source_def case_prod_unfold comp_def)

lemma add_sources_empty: "add_sources (\<lambda>k. []) res = res"
  by (simp add: add_sources_def case_prod_unfold)

lemma resolve_error: "resolve src ms it = Inl e \<Longrightarrow> e = TypeError"
  by (cases src)
     (auto simp: g2_resolve_def capterra_resolve_def
           split: jsval.splits option.splits if_splits prod.splits)

lemma process_items_char:
  "process_items src ctx items res =
     (if ok_items src (vendors ctx) items
      then Inr (add_sources (\<lambda>k. made_for src ctx k (resolved_items src (vendors ctx) items)) res)
      else Inl TypeError)"
proof (induction items arbitrary: res)
  case Nil
  then show ?case
    by (simp add: ok_items_def resolved_items_Nil made_for_Nil add_sources_empty)
next
  case (Cons it items)
  show ?case
  proof (cases "resolve src (vendors ctx) it")
    case (Inl e)
    then show ?thesis using resolve_error [OF Inl] by (simp add: ok_items_def)
  next
    case (Inr r)
    show ?thesis
    proof (cases r)
      case None
      with Inr show ?thesis
        by (simp add: Cons.IH ok_items_def resolved_items_Cons)
    next
      case (Some t)
      obtain v score cnt url where t: "t = (v, score, cnt, url)"
        by (cases t) 
      from Inr Some t show ?thesis
        by (simp add: Cons.IH ok_items_def resolved_items_Cons made_for_Cons add_sources_push)
    qed
  qed
qed

lemma process_raw_items: "process_raw src ctx raw res = process_items src ctx (items_of raw) res"
  by (cases raw) (simp_all add: process_raw_def items_of_def)

lemma finalize_pair: "finalize ctx e = (fst e, snd (finalize ctx e))"
  by (simp add: finalize_def Let_def)

lemma finalize_initial:
  "map (finalize ctx) (add_sources f2 (add_sources f1 (initial_result ctx))) =
     map (\<lambda>(k, m). (k, snd (finalize ctx
            (k, \<lparr>aggregateScore = None, totalCount = Fin 0, sources = f1 k @ f2 k,
                 lastAggregated = or_else (map_option d_lastAggregated (previous ctx k)) (today ctx)\<rparr>))))
       (vendors ctx)"
  by (simp add: add_sources_def initial_result_def case_prod_unfold comp_def finalize_def Let_def)

lemma aggregate_char:
  "aggregate date (Some ms) prev g2Raw capterraRaw =
     (if ok_items G2 ms (items_of g2Raw) \<and> ok_items Capterra ms (items_of capterraRaw)
      then Inr (map (\<lambda>(k, m).
                  (k, vendor_record \<lparr>today = date, vendors = ms, previous = prev\<rparr> k
                        (resolved_items G2 ms (items_of g2Raw))
                        (resolved_items Capterra ms (items_of capterraRaw)))) ms)
      else Inl TypeError)"
  by (simp add: aggregate_def Let_def process_raw_items process_items_char finalize_initial
        vendor_record_def)

lemma makeSource_source [simp]: "rs_source (makeSource ctx k src score cnt url) = src"
  by (simp add: makeSource_def Let_def)

lemma made_for_source: "s \<in> set (made_for src ctx k rs) \<Longrightarrow> rs_source s = src"
  by (auto simp: made_for_def)

lemma two_keys_split:
  fixes f :: "'a \<Rightarrow> nat"
  assumes "sorted (map f ys)" and "\<forall>y \<in> set ys. f y = 0 \<or> f y = 1"
  shows "ys = filter (\<lambda>y. f y = 0) ys @ filter (\<lambda>y. f y = 1) ys"
  using assms
proof (induction ys)
  case Nil
  then show ?case by simp
next
  case (Cons y ys)
  show ?case
  proof (cases "f y = 0")
    case True
    with Cons show ?thesis by simp
  next
    case False
    with Cons.prems have one: "f y = 1" by auto
    with Cons.prems have "\<forall>z \<in> set ys. f z = 1" by fastforce
    then have "filter (\<lambda>y. f y = 0) ys = []" "filter (\<lambda>y. f y = 1) ys = ys"
      by (simp_all add: filter_empty_conv filter_id_conv)
    with one show ?thesis by simp
  qed
qed

lemma sort_two_keys:
  fixes f :: "'a \<Rightarrow> nat"
  assumes "\<forall>a \<in> set A. f a = 1" and "\<forall>b \<in> set B. f b = 0"
  shows "sort_key f (A @ B) = B @ A"
proof -
  let ?ys = "sort_key f (A @ B)"
  have "\<forall>y \<in> set ?ys. f y = 0 \<or> f y = 1"
    using assms by auto
  then have "?ys = filter (\<lambda>y. f y = 0) ?ys @ filter (\<lambda>y. f y = 1) ?ys"
    by (intro two_keys_split) simp_all
  also have "filter (\<lambda>y. f y = 0) ?ys = filter (\<lambda>y. f y = 0) (A @ B)"
    by (rule sort_key_stable)
  also have "filter (\<lambda>y. f y = 1) ?ys = filter (\<lambda>y. f y = 1) (A @ B)"
    by (rule sort_key_stable)
  also have "filter (\<lambda>y. f y = 0) (A @ B) = B"
    using assms by (simp add: filter_empty_conv filter_id_conv)
  also have "filter (\<lambda>y. f y = 1) (A @ B) = A"
    using assms by (simp add: filter_empty_conv filter_id_conv)
  finally show ?thesis .
qed

lemma vendor_record_sources:
  "sources (vendor_record ctx k g2s caps) = made_for Capterra ctx k caps @ made_for G2 ctx k g2s"
proof -
  have "sort_key (\<lambda>s. source_rank (rs_source s)) (made_for G2 ctx k g2s @ made_for Capterra ctx k caps)
          = made_for Capterra ctx k caps @ made_for G2 ctx k g2s"
    by (rule sort_two_keys) (auto dest: made_for_source)
  then show ?thesis
    by (simp add: vendor_record_def finalize_fields(1))
qed

lemma vendor_record_fields:
  "totalCount (vendor_record ctx k g2s caps) =
     foldl (\<lambda>sum s. js_add sum (rs_count s)) (Fin 0) (sources (vendor_record ctx k g2s caps))"
  "aggregateScore (vendor_record ctx k g2s caps) = calculateAggregate (sources (vendor_record ctx k g2s caps))"
  by (simp_all add: vendor_record_def finalize_fields)

lemma aggregate_entry:
  assumes "aggregate date mappingsDoc prev g2Raw capterraRaw = Inr out"
    and "(slug, d) \<in> set out"
  obtains ms where "mappingsDoc = Some ms"
    and "d = vendor_record \<lparr>today = date, vendors = ms, previous = prev\<rparr> slug
               (resolved_items G2 ms (items_of g2Raw))
               (resolved_items Capterra ms (items_of capterraRaw))"
proof -
  from assms(1) obtain ms where ms: "mappingsDoc = Some ms"
    by (cases mappingsDoc) (simp_all add: aggregate_def)
  from assms(1) have "out = map (\<lambda>(k, m).
                  (k, vendor_record \<lparr>today = date, vendors = ms, previous = prev\<rparr> k
                        (resolved_items G2 ms (items_of g2Raw))
                        (resolved_items Capterra ms (items_of capterraRaw)))) ms"
    unfolding ms aggregate_char by (simp split: if_splits)
  with assms(2) have "d = vendor_record \<lparr>today = date, vendors = ms, previous = prev\<rparr> slug
               (resolved_items G2 ms (items_of g2Raw))
               (resolved_items Capterra ms (items_of capterraRaw))"
    by auto
  with ms show thesis by (rule that)
qed

lemma aggregate_Inr_map:
  assumes "aggregate date (Some ms) prev g2Raw capterraRaw = Inr out"
  shows "out = map (\<lambda>(k, m).
                  (k, vendor_record \<lparr>today = date, vendors = ms, previous = prev\<rparr> k
                        (resolved_items G2 ms (items_of g2Raw))
                        (resolved_items Capterra ms (items_of capterraRaw)))) ms"
    and "ok_items G2 ms (items_of g2Raw)" and "ok_items Capterra ms (items_of capterraRaw)"
  using assms by (auto simp: aggregate_char split: if_splits)

lemma map_of_vendor_keys:
  "(v, m) \<in> set ms \<Longrightarrow> map_of (map (\<lambda>(k, m). (k, f k)) ms) v = Some (f v)"
  by (induction ms) auto

text \<open>
  What passes the guard of the loops: a finite score and a count above zero. The entry made
  from it has a score and a count that are not NaN.
\<close>

lemma resolve_guard:
  assumes "resolve src ms it = Inr (Some (k, score, cnt, url))"
  shows "is_finite score \<and> js_positive cnt"
  using assms
  by (cases src)
     (auto simp: g2_resolve_def capterra_resolve_def
           split: jsval.splits option.splits if_splits prod.splits)

lemma resolved_items_mem:
  "r \<in> set (resolved_items src ms items) \<Longrightarrow> \<exists>it \<in> set items. resolve src ms it = Inr (Some r)"
  by (induction items)
     (auto simp: resolved_items_Nil resolved_items_Cons split: sum.splits option.splits)

lemma resolved_items_guard:
  assumes "(k, score, cnt, url) \<in> set (resolved_items src ms items)"
  shows "is_finite score \<and> js_positive cnt"
proof -
  from resolved_items_mem [OF assms]
  obtain it where "resolve src ms it = Inr (Some (k, score, cnt, url))" by blast
  then show ?thesis by (rule resolve_guard)
qed

lemma rounded_not_NaN:
  assumes "is_finite score"
  shows "js_div (js_round (js_mul score (Fin 10))) (Fin 10) \<noteq> NaN"
proof -
  from assms obtain a where a: "score = Fin a" by (cases score) simp_all
  show ?thesis
    unfolding a by (cases "fl (a * 10)") (simp_all add: js_round_def)
qed

lemma js_positive_not_NaN: "js_positive cnt \<Longrightarrow> cnt \<noteq> NaN"
  by (cases cnt) simp_all

lemma made_for_not_NaN:
  assumes "s \<in> set (made_for src ctx k (resolved_items src ms items))"
  shows "rs_score s \<noteq> NaN \<and> rs_count s \<noteq> NaN"
proof -
  from assms obtain score cnt url where
    r: "(k, score, cnt, url) \<in> set (resolved_items src ms items)"
    and s: "s = makeSource ctx k src score cnt url"
    by (auto simp: made_for_def)
  from resolved_items_guard [OF r] have "is_finite score" "js_positive cnt" by simp_all
  then show ?thesis
    unfolding s by (simp add: makeSource_def Let_def rounded_not_NaN js_positive_not_NaN)
qed

lemma calculateAggregate_eq:
  assumes "\<forall>s \<in> set srcs. rs_score s \<noteq> NaN \<and> rs_count s \<noteq> NaN"
  shows "calculateAggregate srcs =
     (if foldl (\<lambda>sum s. js_add sum (rs_count s)) (Fin 0) srcs = Fin 0 then None
      else Some (js_div (js_round (js_mul
             (js_div (foldl (\<lambda>sum s. js_add sum (js_mul (rs_score s) (rs_count s))) (Fin 0) srcs)
                (foldl (\<lambda>sum s. js_add sum (rs_count s)) (Fin 0) srcs))
             (Fin 10))) (Fin 10)))"
proof -
  have total: "foldl (\<lambda>sum s. js_add sum (or_zero (rs_count s))) (Fin 0) srcs
             = foldl (\<lambda>sum s. js_add sum (rs_count s)) (Fin 0) srcs"
    using assms by (intro foldl_cong) (simp_all add: or_zero_id)
  have weighted:
    "foldl (\<lambda>sum s. js_add sum (js_mul (or_zero (rs_score s)) (or_zero (rs_count s)))) (Fin 0) srcs
       = foldl (\<lambda>sum s. js_add sum (js_mul (rs_score s) (rs_count s))) (Fin 0) srcs"
    using assms by (intro foldl_cong) (simp_all add: or_zero_id)
  show ?thesis
    unfolding calculateAggregate_def Let_def total weighted
    by (cases "srcs = []") simp_all
qed

text \<open>Two sources can change places; three cannot (see below).\<close>

lemma calculateAggregate_swap: "calculateAggregate [x, y] = calculateAggregate [y, x]"
proof -
  have "js_add a b = js_add b a" for a b by (rule js_add_commute)
  then show ?thesis
    by (simp add: calculateAggregate_def Let_def)
qed

lemma mset_two:
  assumes "mset ys = mset xs" and "length ys \<le> 2"
  shows "ys = xs \<or> (\<exists>x y. xs = [x, y] \<and> ys = [y, x])"
proof -
  from assms(1) have len: "length xs = length ys" by (metis size_mset)
  show ?thesis
  proof (cases ys)
    case Nil
    with assms show ?thesis by simp
  next
    case (Cons a ys')
    note ys = Cons
    show ?thesis
    proof (cases ys')
      case Nil
      with ys len obtain c where xs: "xs = [c]" by (cases xs) auto
      with assms ys Nil show ?thesis by simp
    next
      case (Cons b ys'')
      with ys assms(2) have ys2: "ys = [a, b]" by simp
      with len obtain c d where xs: "xs = [c, d]"
        by (cases xs; cases "tl xs") auto
      from assms(1) have "{#a, b#} = {#c, d#}" by (simp add: ys2 xs)
      then have "(a = c \<and> b = d) \<or> (a = d \<and> b = c)"
        by (auto simp: add_eq_conv_ex)
      with ys2 xs show ?thesis by auto
    qed
  qed
qed

lemma calculateAggregate_perm:
  assumes "mset ys = mset xs" and "length ys \<le> 2"
  shows "calculateAggregate ys = calculateAggregate xs"
  using mset_two [OF assms] calculateAggregate_swap by auto

text \<open>Whole counts whose sum stays below \<open>2 ^ 53\<close> are added without error.\<close>

lemma whole_number_nat: "whole_number c \<Longrightarrow> \<exists>n::nat. c = Fin (of_nat n)"
proof (cases c)
  case (Fin x)
  assume "whole_number c"
  with Fin have x: "0 \<le> x" "x = of_int \<lfloor>x\<rfloor>" by simp_all
  then have "0 \<le> \<lfloor>x\<rfloor>" by simp
  then have "of_int \<lfloor>x\<rfloor> = (of_nat (nat \<lfloor>x\<rfloor>) :: rat)" by simp
  with x(2) have "x = of_nat (nat \<lfloor>x\<rfloor>)" by simp
  with Fin show ?thesis by blast
qed simp_all

lemma js_add_nat:
  assumes "a + b < 2 ^ 53"
  shows "js_add (Fin (of_nat a)) (Fin (of_nat b)) = Fin (of_nat (a + b))"
  using fl_of_nat [OF assms] by simp

lemma foldl_whole:
  assumes "list_all (\<lambda>s. whole_number (f s)) xs"
    and "of_nat a + sum_list (map (\<lambda>s. the_fin (f s)) xs) < 2 ^ 53"
  shows "foldl (\<lambda>sum s. js_add sum (f s)) (Fin (of_nat a)) xs
           = Fin (of_nat a + sum_list (map (\<lambda>s. the_fin (f s)) xs))"
  using assms
proof (induction xs arbitrary: a)
  case Nil
  then show ?case by simp
next
  case (Cons x xs)
  from Cons.prems(1) obtain n where n: "f x = Fin (of_nat n)"
    using whole_number_nat [of "f x"] by auto
  have nonneg: "0 \<le> sum_list (map (\<lambda>s. the_fin (f s)) xs)"
  proof (rule sum_list_nonneg)
    fix y assume "y \<in> set (map (\<lambda>s. the_fin (f s)) xs)"
    then obtain s where s: "s \<in> set xs" "y = the_fin (f s)" by auto
    with Cons.prems(1) have "whole_number (f s)" by (simp add: list_all_iff)
    with s(2) show "0 \<le> y" by (cases "f s") simp_all
  qed
  from Cons.prems(2) have bound:
    "of_nat (a + n) + sum_list (map (\<lambda>s. the_fin (f s)) xs) < 2 ^ 53"
    by (simp add: n add.assoc)
  with nonneg have "(of_nat (a + n) :: rat) < 2 ^ 53" by linarith
  then have "a + n < 2 ^ 53" by (metis of_nat_less_iff of_nat_numeral of_nat_power)
  then have step: "js_add (Fin (of_nat a)) (f x) = Fin (of_nat (a + n))"
    unfolding n by (rule js_add_nat)
  from Cons.prems(1) have rest: "list_all (\<lambda>s. whole_number (f s)) xs" by simp
  have "foldl (\<lambda>sum s. js_add sum (f s)) (Fin (of_nat a)) (x # xs)
          = foldl (\<lambda>sum s. js_add sum (f s)) (Fin (of_nat (a + n))) xs"
    by (simp only: foldl_Cons step)
  also have "\<dots> = Fin (of_nat (a + n) + sum_list (map (\<lambda>s. the_fin (f s)) xs))"
    by (rule Cons.IH [OF rest bound])
  also have "\<dots> = Fin (of_nat a + sum_list (map (\<lambda>s. the_fin (f s)) (x # xs)))"
    by (simp add: n)
  finally show ?case .
qed

lemma sum_whole_counts:
  assumes "whole_counts srcs" and "sum_counts srcs < 2 ^ 53"
  shows "foldl (\<lambda>sum s. js_add sum (rs_count s)) (Fin 0) srcs = Fin (sum_counts srcs)"
  using foldl_whole [of rs_count srcs 0] assms
  by (simp add: whole_counts_def sum_counts_def)

section \<open>The doubles of the examples\<close>

text \<open>
  Each value is certified by its binary exponent and its significand.
\<close>

lemma fl_overflow_example [simp]: "fl (10 ^ 309) = PosInf"
  by (rule fl_overflow) (simp add: pow2_def)

lemma fl_7_2 [simp]: "fl (7 / 2) = Fin (7 / 2)"
  by (rule fl_value [where e = "1" and m = 7881299347898368]) (simp_all add: pow2_def)

lemma fl_61_17 [simp]: "fl (61 / 17) = Fin (8079987566752949 / 2251799813685248)"
  by (rule fl_value [where e = "1" and m = 8079987566752949]) (simp_all add: pow2_def)

lemma fl_18_5 [simp]: "fl (18 / 5) = Fin (8106479329266893 / 2251799813685248)"
  by (rule fl_value [where e = "1" and m = 8106479329266893]) (simp_all add: pow2_def)

lemma fl_8782019273372467_2251799813685248 [simp]: "fl (8782019273372467 / 2251799813685248) = Fin (8782019273372467 / 2251799813685248)"
  by (rule fl_value [where e = "1" and m = 8782019273372467]) (simp_all add: pow2_def)

lemma fl_39_10 [simp]: "fl (39 / 10) = Fin (8782019273372467 / 2251799813685248)"
  by (rule fl_value [where e = "1" and m = 8782019273372467]) (simp_all add: pow2_def)

lemma fl_41_10 [simp]: "fl (41 / 10) = Fin (2308094809027379 / 562949953421312)"
  by (rule fl_value [where e = "2" and m = 4616189618054758]) (simp_all add: pow2_def)

lemma fl_4672484613396889_1125899906842624 [simp]: "fl (4672484613396889 / 1125899906842624) = Fin (4672484613396889 / 1125899906842624)"
  by (rule fl_value [where e = "2" and m = 4672484613396889]) (simp_all add: pow2_def)

lemma fl_2336242306698445_562949953421312 [simp]: "fl (2336242306698445 / 562949953421312) = Fin (2336242306698445 / 562949953421312)"
  by (rule fl_value [where e = "2" and m = 4672484613396890]) (simp_all add: pow2_def)

lemma fl_21_5 [simp]: "fl (21 / 5) = Fin (4728779608739021 / 1125899906842624)"
  by (rule fl_value [where e = "2" and m = 4728779608739021]) (simp_all add: pow2_def)

lemma fl_43_10 [simp]: "fl (43 / 10) = Fin (4841369599423283 / 1125899906842624)"
  by (rule fl_value [where e = "2" and m = 4841369599423283]) (simp_all add: pow2_def)

lemma fl_13_3 [simp]: "fl (13 / 3) = Fin (4878899596318037 / 1125899906842624)"
  by (rule fl_value [where e = "2" and m = 4878899596318037]) (simp_all add: pow2_def)

lemma fl_269_62 [simp]: "fl (269 / 62) = Fin (4884952821623643 / 1125899906842624)"
  by (rule fl_value [where e = "2" and m = 4884952821623643]) (simp_all add: pow2_def)

lemma fl_9_2 [simp]: "fl (9 / 2) = Fin (9 / 2)"
  by (rule fl_value [where e = "2" and m = 5066549580791808]) (simp_all add: pow2_def)

lemma fl_23_5 [simp]: "fl (23 / 5) = Fin (2589569785738035 / 562949953421312)"
  by (rule fl_value [where e = "2" and m = 5179139571476070]) (simp_all add: pow2_def)

lemma fl_14_3 [simp]: "fl (14 / 3) = Fin (5254199565265579 / 1125899906842624)"
  by (rule fl_value [where e = "2" and m = 5254199565265579]) (simp_all add: pow2_def)

lemma fl_47_10 [simp]: "fl (47 / 10) = Fin (5291729562160333 / 1125899906842624)"
  by (rule fl_value [where e = "2" and m = 5291729562160333]) (simp_all add: pow2_def)

lemma fl_16663318621270835_2251799813685248 [simp]: "fl (16663318621270835 / 2251799813685248) = Fin (4165829655317709 / 562949953421312)"
  by (rule fl_value_tie [where e = "2" and f = 8331659310635417]) (simp_all add: pow2_def)

lemma fl_2589569785738035_281474976710656 [simp]: "fl (2589569785738035 / 281474976710656) = Fin (2589569785738035 / 281474976710656)"
  by (rule fl_value [where e = "3" and m = 5179139571476070]) (simp_all add: pow2_def)

lemma fl_3574732204225331_281474976710656 [simp]: "fl (3574732204225331 / 281474976710656) = Fin (3574732204225331 / 281474976710656)"
  by (rule fl_value [where e = "3" and m = 7149464408450662]) (simp_all add: pow2_def)

lemma fl_37379876907175115_2251799813685248 [simp]: "fl (37379876907175115 / 2251799813685248) = Fin (4672484613396889 / 281474976710656)"
  by (rule fl_value [where e = "4" and m = 4672484613396889]) (simp_all add: pow2_def)

lemma fl_9344969226793779_562949953421312 [simp]: "fl (9344969226793779 / 562949953421312) = Fin (2336242306698445 / 140737488355328)"
  by (rule fl_value_tie [where e = "4" and f = 4672484613396889]) (simp_all add: pow2_def)

lemma fl_40399937833764745_1125899906842624 [simp]: "fl (40399937833764745 / 1125899906842624) = Fin (5049992229220593 / 140737488355328)"
  by (rule fl_value [where e = "5" and m = 5049992229220593]) (simp_all add: pow2_def)

lemma fl_43910096366862335_1125899906842624 [simp]: "fl (43910096366862335 / 1125899906842624) = Fin 39"
  by (rule fl_value [where e = "5" and m = 5488762045857792]) (simp_all add: pow2_def)

lemma fl_23362423066984445_562949953421312 [simp]: "fl (23362423066984445 / 562949953421312) = Fin (5840605766746111 / 140737488355328)"
  by (rule fl_value [where e = "5" and m = 5840605766746111]) (simp_all add: pow2_def)

lemma fl_11681211533492225_281474976710656 [simp]: "fl (11681211533492225 / 281474976710656) = Fin (83 / 2)"
  by (rule fl_value_tie [where e = "5" and f = 5840605766746112]) (simp_all add: pow2_def)

lemma fl_24394497981590185_562949953421312 [simp]: "fl (24394497981590185 / 562949953421312) = Fin (3049312247698773 / 70368744177664)"
  by (rule fl_value [where e = "5" and m = 6098624495397546]) (simp_all add: pow2_def)

lemma fl_24424764108118215_562949953421312 [simp]: "fl (24424764108118215 / 562949953421312) = Fin (3053095513514777 / 70368744177664)"
  by (rule fl_value [where e = "5" and m = 6106191027029554]) (simp_all add: pow2_def)

lemma fl_12947848928690175_281474976710656 [simp]: "fl (12947848928690175 / 281474976710656) = Fin 46"
  by (rule fl_value_tie [where e = "5" and f = 6473924464345087]) (simp_all add: pow2_def)

lemma fl_26270997826327895_562949953421312 [simp]: "fl (26270997826327895 / 562949953421312) = Fin (3283874728290987 / 70368744177664)"
  by (rule fl_value [where e = "5" and m = 6567749456581974]) (simp_all add: pow2_def)

lemma fl_189_2 [simp]: "fl (189 / 2) = Fin (189 / 2)"
  by (rule fl_value [where e = "6" and m = 6649846324789248]) (simp_all add: pow2_def)

lemma fl_269_2 [simp]: "fl (269 / 2) = Fin (269 / 2)"
  by (rule fl_value [where e = "7" and m = 4732298045947904]) (simp_all add: pow2_def)

lemma fl_9007199254740992 [simp]: "fl (9007199254740992) = Fin 9007199254740992"
  by (rule fl_value [where e = "53" and m = 4503599627370496]) (simp_all add: pow2_def)

lemma fl_9007199254740993 [simp]: "fl (9007199254740993) = Fin 9007199254740992"
  by (rule fl_value_tie [where e = "53" and f = 4503599627370496]) (simp_all add: pow2_def)

lemma fl_36028797018963968 [simp]: "fl (36028797018963968) = Fin 36028797018963968"
  by (rule fl_value [where e = "55" and m = 4503599627370496]) (simp_all add: pow2_def)

lemma fl_36028797018963972 [simp]: "fl (36028797018963972) = Fin 36028797018963968"
  by (rule fl_value_tie [where e = "55" and f = 4503599627370496]) (simp_all add: pow2_def)

lemma js_round_5049992229220593_140737488355328 [simp]: "js_round (Fin (5049992229220593 / 140737488355328)) = Fin 36"
  by (rule js_round_value [where n = "36"]) simp_all

lemma js_round_5840605766746111_140737488355328 [simp]: "js_round (Fin (5840605766746111 / 140737488355328)) = Fin 41"
  by (rule js_round_value [where n = "41"]) simp_all

lemma js_round_83_2 [simp]: "js_round (Fin (83 / 2)) = Fin 42"
  by (rule js_round_value [where n = "42"]) simp_all

lemma js_round_3049312247698773_70368744177664 [simp]: "js_round (Fin (3049312247698773 / 70368744177664)) = Fin 43"
  by (rule js_round_value [where n = "43"]) simp_all

lemma js_round_3053095513514777_70368744177664 [simp]: "js_round (Fin (3053095513514777 / 70368744177664)) = Fin 43"
  by (rule js_round_value [where n = "43"]) simp_all

lemma js_round_3283874728290987_70368744177664 [simp]: "js_round (Fin (3283874728290987 / 70368744177664)) = Fin 47"
  by (rule js_round_value [where n = "47"]) simp_all

section \<open>The example runs\<close>

text \<open>The slugs and URLs of the example items, and what the items resolve to.\<close>

lemma example_slugs:
  "extractG2Slug ''https://www.g2.com/products/acme-ehr/reviews'' = Some ''acme-ehr''"
  "extractG2Slug ''https://www.g2.com/products/beta'' = Some ''beta''"
  "extractCapterraSlug ''https://www.capterra.com/p/12345/Acme/'' = Some ''acme''"
  by code_simp+

lemma example_vendors:
  "mapToVendorSlug ''acme-ehr'' G2 example_mappings = Some ''acme''"
  "mapToVendorSlug ''beta'' G2 example_mappings = Some ''beta''"
  "mapToVendorSlug ''acme'' Capterra example_mappings = Some ''acme''"
  "mapToVendorSlug ''acme-ehr'' G2 stamp_mappings = Some ''acme''"
  "mapToVendorSlug ''beta'' G2 stamp_mappings = Some ''beta''"
  by code_simp+

lemma example_urls:
  "getMappedUrl example_mappings ''acme'' G2 = None"
  "getMappedUrl example_mappings ''acme'' Capterra = None"
  "getMappedUrl example_mappings ''beta'' G2 = Some ''https://www.g2.com/products/beta/reviews''"
  "getMappedUrl stamp_mappings ''acme'' G2 = None"
  "getMappedUrl stamp_mappings ''beta'' G2 = Some ''https://www.g2.com/products/beta/reviews''"
  by code_simp+

lemma g2_acme_resolves:
  "ms = example_mappings \<or> ms = stamp_mappings \<Longrightarrow>
   g2_resolve ms (g2_acme s c) =
     (if is_finite (fl s) \<and> js_positive (fl c)
      then Inr (Some (''acme'', fl s, fl c, ''https://www.g2.com/products/acme-ehr/reviews''))
      else Inr None)"
  by (auto simp add: g2_resolve_def g2_acme_def item_def g2_url_def g2_score_def item_count_def
        js_or_def js_nullish_def example_slugs example_vendors example_urls or_else_def
        simp del: extractG2Slug.simps mapToVendorSlug.simps)

lemma g2_beta_resolves:
  "ms = example_mappings \<or> ms = stamp_mappings \<Longrightarrow>
   g2_resolve ms (g2_beta s c) =
     (if is_finite (fl s) \<and> js_positive (fl c)
      then Inr (Some (''beta'', fl s, fl c, ''https://www.g2.com/products/beta/reviews''))
      else Inr None)"
  by (auto simp add: g2_resolve_def g2_beta_def item_def g2_url_def g2_score_def item_count_def
        js_or_def js_nullish_def example_slugs example_vendors example_urls or_else_def
        simp del: extractG2Slug.simps mapToVendorSlug.simps)

lemma capterra_acme_resolves:
  "capterra_resolve example_mappings (capterra_acme s c) =
     (if is_finite (fl s) \<and> js_positive (fl c)
      then Inr (Some (''acme'', fl s, fl c, ''https://www.capterra.com/p/12345/Acme/''))
      else Inr None)"
  by (simp add: capterra_resolve_def capterra_acme_def item_def capterra_url_def
        capterra_score_def item_count_def js_or_def js_nullish_def example_slugs example_vendors
        example_urls or_else_def
        del: mapToVendorSlug.simps)

lemma example_keys:
  "map fst example_mappings = [''acme'', ''beta'']"
  "map fst stamp_mappings = [''acme'', ''beta'', ''gamma'', ''delta'']"
  by (simp_all add: example_mappings_def stamp_mappings_def)

text \<open>
  A run whose items resolve without an exception: one record for each vendor of the
  mappings, computed from what the items resolve to.
\<close>

lemma run_eval:
  assumes "ok_items G2 ms (items_of g2Raw)" and "ok_items Capterra ms (items_of capterraRaw)"
    and "resolved_items G2 ms (items_of g2Raw) = g2s"
    and "resolved_items Capterra ms (items_of capterraRaw) = caps"
  shows "aggregate date (Some ms) prev g2Raw capterraRaw =
           Inr (map (\<lambda>k. (k, vendor_record \<lparr>today = date, vendors = ms, previous = prev\<rparr> k g2s caps))
                  (map fst ms))"
  using assms by (simp add: aggregate_char case_prod_unfold comp_def)

lemma ok_items_Nil: "ok_items src ms []"
  by (simp add: ok_items_def)

lemmas eval_items = ok_items_def items_of_def resolved_items_Cons resolved_items_Nil
  g2_acme_resolves g2_beta_resolves capterra_acme_resolves

lemmas eval_record = vendor_record_def finalize_def made_for_def makeSource_def
  getPreviousSource_def detect_change_def bySource_def source_changed_def doc_eq_def
  calculateAggregate_def Let_def or_else_def or_zero_def mk_source_def
  written_def write_review_def write_source_def acme_g2_url_def acme_capterra_url_def
  beta_g2_url_def doc_g2_def

text \<open>
  The end-to-end scenario of the specification: counts 10 and 20, scores 4.0 and 4.5, and
  the aggregate score 4.3.
\<close>

lemma example_run1_value: "example_run1 = Inr example_out1"
proof -
  let ?ctx = "\<lparr>today = ''2026-02-01'', vendors = example_mappings, previous = Map.empty\<rparr>"
  let ?g = "[(''acme'', Fin 4, Fin 10, ''https://www.g2.com/products/acme-ehr/reviews'')]"
  let ?c = "[(''acme'', Fin (9 / 2), Fin 20, ''https://www.capterra.com/p/12345/Acme/'')]"
  have run: "example_run1 = Inr (map (\<lambda>k. (k, vendor_record ?ctx k ?g ?c)) (map fst example_mappings))"
    unfolding example_run1_def by (rule run_eval) (simp_all add: eval_items)
  have acme: "vendor_record ?ctx ''acme'' ?g ?c = example_acme1"
    by (simp add: eval_record example_acme1_def)
  have beta: "vendor_record ?ctx ''beta'' ?g ?c = example_empty ''2026-02-01''"
    by (simp add: eval_record example_empty_def)
  show ?thesis
    unfolding run example_keys list.map acme beta by (simp add: example_out1_def)
qed

text \<open>
  The same inputs a month later, on the written output of the first run: the output of the
  first run again.
\<close>

lemma example_rerun_same:
  "aggregate ''2026-03-01'' (Some example_mappings) (map_of (written example_out1))
     (Some [g2_acme 4 10]) (Some [capterra_acme (9 / 2) 20]) = Inr example_out1"
proof -
  let ?ctx = "\<lparr>today = ''2026-03-01'', vendors = example_mappings,
               previous = map_of (written example_out1)\<rparr>"
  let ?g = "[(''acme'', Fin 4, Fin 10, ''https://www.g2.com/products/acme-ehr/reviews'')]"
  let ?c = "[(''acme'', Fin (9 / 2), Fin 20, ''https://www.capterra.com/p/12345/Acme/'')]"
  have run: "aggregate ''2026-03-01'' (Some example_mappings) (map_of (written example_out1))
       (Some [g2_acme 4 10]) (Some [capterra_acme (9 / 2) 20])
     = Inr (map (\<lambda>k. (k, vendor_record ?ctx k ?g ?c)) (map fst example_mappings))"
    by (rule run_eval) (simp_all add: eval_items)
  have acme: "vendor_record ?ctx ''acme'' ?g ?c = example_acme1"
    by (simp add: eval_record example_out1_def example_acme1_def example_empty_def)
  have beta: "vendor_record ?ctx ''beta'' ?g ?c = example_empty ''2026-02-01''"
    by (simp add: eval_record example_out1_def example_acme1_def example_empty_def)
  show ?thesis
    unfolding run example_keys list.map acme beta by (simp add: example_out1_def)
qed



text \<open>Two G2 items for one vendor, on a first run and on a second run a day later.\<close>

lemma example_twice_resolved:
  "resolved_items G2 example_mappings example_twice =
     [(''acme'', Fin 4, Fin 10, acme_g2_url), (''acme'', Fin 5, Fin 20, acme_g2_url)]"
  by (simp add: example_twice_def eval_items acme_g2_url_def)

lemma example_twice_first:
  "aggregate ''2026-02-01'' (Some example_mappings) Map.empty (Some example_twice) None
     = Inr (example_twice_out ''2026-02-01'')"
proof -
  let ?ctx = "\<lparr>today = ''2026-02-01'', vendors = example_mappings, previous = Map.empty\<rparr>"
  let ?g = "[(''acme'', Fin 4, Fin 10, acme_g2_url), (''acme'', Fin 5, Fin 20, acme_g2_url)]"
  have run: "aggregate ''2026-02-01'' (Some example_mappings) Map.empty (Some example_twice) None
     = Inr (map (\<lambda>k. (k, vendor_record ?ctx k ?g [])) (map fst example_mappings))"
    by (rule run_eval) (simp_all add: example_twice_def eval_items acme_g2_url_def)
  have acme: "vendor_record ?ctx ''acme'' ?g [] = example_twice_acme ''2026-02-01''"
    by (simp add: eval_record example_twice_acme_def)
  have beta: "vendor_record ?ctx ''beta'' ?g [] = example_empty ''2026-02-01''"
    by (simp add: eval_record example_empty_def)
  show ?thesis
    unfolding run example_keys list.map acme beta by (simp add: example_twice_out_def)
qed

lemma example_twice_second:
  "aggregate ''2026-02-02'' (Some example_mappings) (map_of (written (example_twice_out ''2026-02-01'')))
     (Some example_twice) None
     = Inr (example_twice_out ''2026-02-02'')"
proof -
  let ?ctx = "\<lparr>today = ''2026-02-02'', vendors = example_mappings,
               previous = map_of (written (example_twice_out ''2026-02-01''))\<rparr>"
  let ?g = "[(''acme'', Fin 4, Fin 10, acme_g2_url), (''acme'', Fin 5, Fin 20, acme_g2_url)]"
  have run: "aggregate ''2026-02-02'' (Some example_mappings)
       (map_of (written (example_twice_out ''2026-02-01''))) (Some example_twice) None
     = Inr (map (\<lambda>k. (k, vendor_record ?ctx k ?g [])) (map fst example_mappings))"
    by (rule run_eval) (simp_all add: example_twice_def eval_items acme_g2_url_def)
  have acme: "vendor_record ?ctx ''acme'' ?g [] = example_twice_acme ''2026-02-02''"
    by (simp add: eval_record example_twice_out_def example_twice_acme_def example_empty_def)
  have beta: "vendor_record ?ctx ''beta'' ?g [] = example_empty ''2026-02-01''"
    by (simp add: eval_record example_twice_out_def example_twice_acme_def example_empty_def)
  show ?thesis
    unfolding run example_keys list.map acme beta by (simp add: example_twice_out_def)
qed

text \<open>A count that reads as \<open>Infinity\<close>, on a first run and on a second run a day later.\<close>

lemma example_infinite_resolved:
  "resolved_items G2 example_mappings infinite_items = [(''beta'', Fin 4, PosInf, beta_g2_url)]"
  "ok_items G2 example_mappings infinite_items"
proof -
  have four: "fl 4 = Fin 4" by simp
  have "g2_resolve example_mappings (g2_beta 4 (10 ^ 309)) =
          Inr (Some (''beta'', Fin 4, PosInf, beta_g2_url))"
    unfolding g2_beta_resolves [OF disjI1 [OF refl]] fl_overflow_example four beta_g2_url_def
    by (simp only: is_finite.simps js_positive.simps simp_thms if_True)
  then show "resolved_items G2 example_mappings infinite_items = [(''beta'', Fin 4, PosInf, beta_g2_url)]"
    "ok_items G2 example_mappings infinite_items"
    unfolding infinite_items_def
    by (simp_all only: resolved_items_Cons resolved_items_Nil ok_items_def resolve.simps
          list.pred_inject sum.case option.case append.simps sum.disc simp_thms)
qed

lemma example_infinite_first:
  "aggregate ''2026-02-01'' (Some example_mappings) Map.empty (Some infinite_items) None
     = Inr (example_infinite_out ''2026-02-01'')"
proof -
  let ?ctx = "\<lparr>today = ''2026-02-01'', vendors = example_mappings, previous = Map.empty\<rparr>"
  let ?g = "[(''beta'', Fin 4, PosInf, beta_g2_url)]"
  have run: "aggregate ''2026-02-01'' (Some example_mappings) Map.empty
       (Some infinite_items) None
     = Inr (map (\<lambda>k. (k, vendor_record ?ctx k ?g [])) (map fst example_mappings))"
    by (rule run_eval)
       (simp_all add: items_of_def example_infinite_resolved ok_items_Nil resolved_items_Nil)
  have acme: "vendor_record ?ctx ''acme'' ?g [] = example_empty ''2026-02-01''"
    by (simp add: eval_record example_empty_def)
  have beta: "vendor_record ?ctx ''beta'' ?g [] = example_infinite ''2026-02-01''"
    by (simp add: eval_record example_infinite_def sign_inf_def)
  show ?thesis
    unfolding run example_keys list.map acme beta by (simp add: example_infinite_out_def)
qed

lemma example_infinite_second:
  "aggregate ''2026-02-02'' (Some example_mappings) (map_of (written (example_infinite_out ''2026-02-01'')))
     (Some infinite_items) None
     = Inr (example_infinite_out ''2026-02-02'')"
proof -
  let ?ctx = "\<lparr>today = ''2026-02-02'', vendors = example_mappings,
               previous = map_of (written (example_infinite_out ''2026-02-01''))\<rparr>"
  let ?g = "[(''beta'', Fin 4, PosInf, beta_g2_url)]"
  have run: "aggregate ''2026-02-02'' (Some example_mappings)
       (map_of (written (example_infinite_out ''2026-02-01''))) (Some infinite_items) None
     = Inr (map (\<lambda>k. (k, vendor_record ?ctx k ?g [])) (map fst example_mappings))"
    by (rule run_eval)
       (simp_all add: items_of_def example_infinite_resolved ok_items_Nil resolved_items_Nil)
  have acme: "vendor_record ?ctx ''acme'' ?g [] = example_empty ''2026-02-01''"
    by (simp add: eval_record example_infinite_out_def example_infinite_def example_empty_def)
  have beta: "vendor_record ?ctx ''beta'' ?g [] = example_infinite ''2026-02-02''"
    by (simp add: eval_record example_infinite_out_def example_infinite_def example_empty_def
          sign_inf_def)
  show ?thesis
    unfolding run example_keys list.map acme beta by (simp add: example_infinite_out_def)
qed

text \<open>An item with the score -1.\<close>

lemma example_negative_value:
  "aggregate ''2026-02-01'' (Some example_mappings) Map.empty (Some [g2_beta (- 1) 5]) None
     = Inr [(''acme'', example_empty ''2026-02-01''), (''beta'', example_negative)]"
proof -
  let ?ctx = "\<lparr>today = ''2026-02-01'', vendors = example_mappings, previous = Map.empty\<rparr>"
  let ?g = "[(''beta'', Fin (- 1), Fin 5, ''https://www.g2.com/products/beta/reviews'')]"
  have run: "aggregate ''2026-02-01'' (Some example_mappings) Map.empty (Some [g2_beta (- 1) 5]) None
     = Inr (map (\<lambda>k. (k, vendor_record ?ctx k ?g [])) (map fst example_mappings))"
    by (rule run_eval) (simp_all add: eval_items)
  have acme: "vendor_record ?ctx ''acme'' ?g [] = example_empty ''2026-02-01''"
    by (simp add: eval_record example_empty_def)
  have beta: "vendor_record ?ctx ''beta'' ?g [] = example_negative"
    by (simp add: eval_record example_negative_def)
  show ?thesis
    unfolding run example_keys list.map acme beta by simp
qed

text \<open>Three sources, with the two G2 items in either order.\<close>

lemma example_order_value:
  "aggregate ''2026-02-01'' (Some example_mappings) Map.empty
       (Some example_order) (Some [capterra_acme (7 / 2) 1])
     = Inr [(''acme'', example_order_acme (21 / 5) example_order_g2),
            (''beta'', example_empty ''2026-02-01'')]"
proof -
  let ?ctx = "\<lparr>today = ''2026-02-01'', vendors = example_mappings, previous = Map.empty\<rparr>"
  let ?g = "[(''acme'', fl (39 / 10), Fin 1, acme_g2_url), (''acme'', fl (23 / 5), Fin 2, acme_g2_url)]"
  let ?c = "[(''acme'', Fin (7 / 2), Fin 1, acme_capterra_url)]"
  have run: "aggregate ''2026-02-01'' (Some example_mappings) Map.empty
       (Some example_order) (Some [capterra_acme (7 / 2) 1])
     = Inr (map (\<lambda>k. (k, vendor_record ?ctx k ?g ?c)) (map fst example_mappings))"
    by (rule run_eval)
       (simp_all add: example_order_def eval_items acme_g2_url_def acme_capterra_url_def)
  have acme: "vendor_record ?ctx ''acme'' ?g ?c = example_order_acme (21 / 5) example_order_g2"
    by (simp add: eval_record example_order_acme_def example_order_g2_def)
  have beta: "vendor_record ?ctx ''beta'' ?g ?c = example_empty ''2026-02-01''"
    by (simp add: eval_record example_empty_def)
  show ?thesis
    unfolding run example_keys list.map acme beta by simp
qed

lemma example_order_swapped:
  "aggregate ''2026-02-01'' (Some example_mappings) Map.empty
       (Some (rev example_order)) (Some [capterra_acme (7 / 2) 1])
     = Inr [(''acme'', example_order_acme (41 / 10) (rev example_order_g2)),
            (''beta'', example_empty ''2026-02-01'')]"
proof -
  let ?ctx = "\<lparr>today = ''2026-02-01'', vendors = example_mappings, previous = Map.empty\<rparr>"
  let ?g = "[(''acme'', fl (23 / 5), Fin 2, acme_g2_url), (''acme'', fl (39 / 10), Fin 1, acme_g2_url)]"
  let ?c = "[(''acme'', Fin (7 / 2), Fin 1, acme_capterra_url)]"
  have run: "aggregate ''2026-02-01'' (Some example_mappings) Map.empty
       (Some (rev example_order)) (Some [capterra_acme (7 / 2) 1])
     = Inr (map (\<lambda>k. (k, vendor_record ?ctx k ?g ?c)) (map fst example_mappings))"
    by (rule run_eval)
       (simp_all add: example_order_def eval_items acme_g2_url_def acme_capterra_url_def)
  have acme: "vendor_record ?ctx ''acme'' ?g ?c = example_order_acme (41 / 10) (rev example_order_g2)"
    by (simp add: eval_record example_order_acme_def example_order_g2_def)
  have beta: "vendor_record ?ctx ''beta'' ?g ?c = example_empty ''2026-02-01''"
    by (simp add: eval_record example_empty_def)
  show ?thesis
    unfolding run example_keys list.map acme beta by simp
qed

lemma round_one_decimal_value:
  assumes "of_int n \<le> x * 10 + 1 / 2" and "x * 10 + 1 / 2 < of_int n + 1" and "r = of_int n / 10"
  shows "round_one_decimal x = r"
proof -
  from assms(1,2) have "\<lfloor>x * 10 + 1 / 2\<rfloor> = n" by linarith
  then show ?thesis by (simp add: round_one_decimal_def assms(3))
qed

lemma example_order_mean:
  "round_one_decimal (weighted_mean (sources (example_order_acme (21 / 5) example_order_g2))) = 41 / 10"
  by (rule round_one_decimal_value [where n = 41])
     (simp_all add: weighted_mean_def sum_counts_def example_order_acme_def example_order_g2_def
        mk_source_def)

text \<open>A count of \<open>2 ^ 53\<close> beside a count of 1.\<close>

lemma example_huge_value:
  "aggregate ''2026-02-01'' (Some example_mappings) Map.empty
       (Some [g2_acme 4 9007199254740992]) (Some [capterra_acme 4 1])
     = Inr [(''acme'', example_huge), (''beta'', example_empty ''2026-02-01'')]"
proof -
  let ?ctx = "\<lparr>today = ''2026-02-01'', vendors = example_mappings, previous = Map.empty\<rparr>"
  let ?g = "[(''acme'', Fin 4, Fin 9007199254740992, acme_g2_url)]"
  let ?c = "[(''acme'', Fin 4, Fin 1, acme_capterra_url)]"
  have run: "aggregate ''2026-02-01'' (Some example_mappings) Map.empty
       (Some [g2_acme 4 9007199254740992]) (Some [capterra_acme 4 1])
     = Inr (map (\<lambda>k. (k, vendor_record ?ctx k ?g ?c)) (map fst example_mappings))"
    by (rule run_eval) (simp_all add: eval_items acme_g2_url_def acme_capterra_url_def)
  have acme: "vendor_record ?ctx ''acme'' ?g ?c = example_huge"
    by (simp add: eval_record example_huge_def)
  have beta: "vendor_record ?ctx ''beta'' ?g ?c = example_empty ''2026-02-01''"
    by (simp add: eval_record example_empty_def)
  show ?thesis
    unfolding run example_keys list.map acme beta by simp
qed


section \<open>Totals of a vendor record\<close>

text \<open>
  Claim C1, as stated, takes \<open>totalCount\<close> for the sum of the counts and \<open>aggregateScore\<close>
  for the count-weighted mean rounded to one decimal, whatever the order of the sources.
  The code adds and divides doubles in the order of the list. With the sources 3.5 (1
  review), 3.9 (1 review) and 4.6 (2 reviews) the run gives 4.2, and 4.1 when the two G2
  items change places; the weighted mean of the three stored scores, rounded to one
  decimal, is 4.1. With the counts \<open>2 ^ 53\<close> and 1 the run gives the total \<open>2 ^ 53\<close>.
  With a count written \<open>1e309\<close> the total is \<open>Infinity\<close> and the score NaN, and both
  are written as \<open>null\<close>.
\<close>

theorem aggregate_totals_differ:
  "aggregate ''2026-02-01'' (Some example_mappings) Map.empty
       (Some example_order) (Some [capterra_acme (7 / 2) 1])
     = Inr [(''acme'', example_order_acme (21 / 5) example_order_g2),
            (''beta'', example_empty ''2026-02-01'')]
   \<and> aggregate ''2026-02-01'' (Some example_mappings) Map.empty
       (Some (rev example_order)) (Some [capterra_acme (7 / 2) 1])
     = Inr [(''acme'', example_order_acme (41 / 10) (rev example_order_g2)),
            (''beta'', example_empty ''2026-02-01'')]
   \<and> mset (sources (example_order_acme (41 / 10) (rev example_order_g2)))
       = mset (sources (example_order_acme (21 / 5) example_order_g2))
   \<and> aggregateScore (example_order_acme (21 / 5) example_order_g2) = Some (fl (21 / 5))
   \<and> calculateAggregate (sources (example_order_acme (41 / 10) (rev example_order_g2)))
       = Some (fl (41 / 10))
   \<and> fl (21 / 5) \<noteq> fl (41 / 10)
   \<and> round_one_decimal (weighted_mean (sources (example_order_acme (21 / 5) example_order_g2)))
       = 41 / 10
   \<and> aggregate ''2026-02-01'' (Some example_mappings) Map.empty
       (Some [g2_acme 4 9007199254740992]) (Some [capterra_acme 4 1])
     = Inr [(''acme'', example_huge), (''beta'', example_empty ''2026-02-01'')]
   \<and> totalCount example_huge = Fin 9007199254740992
   \<and> sum_counts (sources example_huge) = 9007199254740993
   \<and> aggregate ''2026-02-01'' (Some example_mappings) Map.empty (Some infinite_items) None
     = Inr (example_infinite_out ''2026-02-01'')
   \<and> d_aggregateScore (write_review (example_infinite ''2026-02-01'')) = None
   \<and> d_totalCount (write_review (example_infinite ''2026-02-01'')) = None"
proof -
  have perm: "mset (sources (example_order_acme (41 / 10) (rev example_order_g2)))
       = mset (sources (example_order_acme (21 / 5) example_order_g2))"
    by (simp add: example_order_acme_def)
  have score: "aggregateScore (example_order_acme (21 / 5) example_order_g2) = Some (fl (21 / 5))"
    by (simp add: example_order_acme_def)
  have swapped: "calculateAggregate (sources (example_order_acme (41 / 10) (rev example_order_g2)))
       = Some (fl (41 / 10))"
    by (simp add: calculateAggregate_def Let_def or_zero_def example_order_acme_def
          example_order_g2_def mk_source_def)
  have differ: "fl (21 / 5) \<noteq> fl (41 / 10)"
    by simp
  have total: "totalCount example_huge = Fin 9007199254740992"
    "sum_counts (sources example_huge) = 9007199254740993"
    by (simp_all add: sum_counts_def example_huge_def mk_source_def)
  have infinite: "d_aggregateScore (write_review (example_infinite ''2026-02-01'')) = None"
    "d_totalCount (write_review (example_infinite ''2026-02-01'')) = None"
    by (simp_all add: write_review_def example_infinite_def)
  from example_order_value example_order_swapped perm score swapped differ example_order_mean
    example_huge_value total example_infinite_first infinite
  show ?thesis by (intro conjI)
qed

text \<open>
  Claim C1, amended. For every vendor record of the result of a run (the value handed to
  \<open>JSON.stringify\<close>): \<open>totalCount\<close> is the sum of the counts of its sources, added as
  doubles in the order of the list, and it is the exact sum when the counts are whole
  numbers whose sum is below \<open>2 ^ 53\<close>; \<open>aggregateScore\<close> is null exactly when
  \<open>totalCount\<close> is 0, and is otherwise \<open>Math.round(weightedSum / totalCount * 10) / 10\<close>,
  with \<open>weightedSum\<close> the sum of the products score times count, every operation on
  doubles and in the order of the list; in the written file \<open>aggregateScore\<close> is
  \<open>null\<close> exactly when \<open>totalCount\<close> is 0 or the computed score is not finite;
  \<open>calculateAggregate\<close> gives the same value on every permutation of a list of at most
  two sources.
\<close>

theorem aggregate_totals:
  assumes "aggregate date mappingsDoc prev g2Raw capterraRaw = Inr out"
    and "(slug, d) \<in> set out"
  shows "totalCount d = foldl (\<lambda>sum s. js_add sum (rs_count s)) (Fin 0) (sources d)
     \<and> (whole_counts (sources d) \<and> sum_counts (sources d) < 2 ^ 53
          \<longrightarrow> totalCount d = Fin (sum_counts (sources d)))
     \<and> aggregateScore d =
         (if totalCount d = Fin 0 then None
          else Some (js_div (js_round (js_mul
                 (js_div (foldl (\<lambda>sum s. js_add sum (js_mul (rs_score s) (rs_count s)))
                            (Fin 0) (sources d))
                    (totalCount d))
                 (Fin 10))) (Fin 10)))
     \<and> (d_aggregateScore (write_review d) = None
          \<longleftrightarrow> totalCount d = Fin 0 \<or> (\<exists>n. aggregateScore d = Some n \<and> \<not> is_finite n))
     \<and> (\<forall>ys. mset ys = mset (sources d) \<and> length ys \<le> 2
            \<longrightarrow> calculateAggregate ys = aggregateScore d)"
proof -
  from assms obtain ms where
    d: "d = vendor_record \<lparr>today = date, vendors = ms, previous = prev\<rparr> slug
               (resolved_items G2 ms (items_of g2Raw))
               (resolved_items Capterra ms (items_of capterraRaw))"
    by (rule aggregate_entry)
  have total: "totalCount d = foldl (\<lambda>sum s. js_add sum (rs_count s)) (Fin 0) (sources d)"
    unfolding d by (rule vendor_record_fields(1))
  have score: "aggregateScore d = calculateAggregate (sources d)"
    unfolding d by (rule vendor_record_fields(2))
  have numbers: "\<forall>s \<in> set (sources d). rs_score s \<noteq> NaN \<and> rs_count s \<noteq> NaN"
    unfolding d vendor_record_sources using made_for_not_NaN by auto
  have whole: "whole_counts (sources d) \<and> sum_counts (sources d) < 2 ^ 53
          \<longrightarrow> totalCount d = Fin (sum_counts (sources d))"
    unfolding total by (blast intro: sum_whole_counts)
  have mean: "aggregateScore d =
         (if totalCount d = Fin 0 then None
          else Some (js_div (js_round (js_mul
                 (js_div (foldl (\<lambda>sum s. js_add sum (js_mul (rs_score s) (rs_count s)))
                            (Fin 0) (sources d))
                    (totalCount d))
                 (Fin 10))) (Fin 10)))"
    unfolding score total by (rule calculateAggregate_eq [OF numbers])
  have perm: "\<forall>ys. mset ys = mset (sources d) \<and> length ys \<le> 2
            \<longrightarrow> calculateAggregate ys = aggregateScore d"
    unfolding score by (blast intro: calculateAggregate_perm)
  have "stringify_num n = None \<longleftrightarrow> \<not> is_finite n" for n
    by (cases n) simp_all
  with mean have doc: "d_aggregateScore (write_review d) = None
          \<longleftrightarrow> totalCount d = Fin 0 \<or> (\<exists>n. aggregateScore d = Some n \<and> \<not> is_finite n)"
    by (simp add: write_review_def split: if_splits)
  from total whole mean doc perm show ?thesis by (intro conjI)
qed

text \<open>
  The end-to-end scenario of the specification: the counts 10 and 20 give the total 30, and
  the scores 4.0 and 4.5 the aggregate score 4.3, in either order.
\<close>

theorem aggregate_totals_witness:
  "example_run1 = Inr example_out1
   \<and> whole_counts (sources example_acme1)
   \<and> sum_counts (sources example_acme1) = 30
   \<and> totalCount example_acme1 = Fin 30
   \<and> aggregateScore example_acme1 = Some (fl (43 / 10))
   \<and> d_aggregateScore (write_review example_acme1) \<noteq> None
   \<and> calculateAggregate (rev (sources example_acme1)) = Some (fl (43 / 10))"
proof -
  have run: "aggregate ''2026-02-01'' (Some example_mappings) Map.empty
       (Some [g2_acme 4 10]) (Some [capterra_acme (9 / 2) 20]) = Inr example_out1"
    using example_run1_value by (simp add: example_run1_def)
  have mem: "(''acme'', example_acme1) \<in> set example_out1"
    by (simp add: example_out1_def)
  have whole: "whole_counts (sources example_acme1)"
    and sum: "sum_counts (sources example_acme1) = 30"
    and score: "aggregateScore example_acme1 = Some (fl (43 / 10))"
    and rev: "mset (rev (sources example_acme1)) = mset (sources example_acme1)"
      "length (rev (sources example_acme1)) \<le> 2"
    by (simp_all add: whole_counts_def sum_counts_def example_acme1_def mk_source_def)
  from aggregate_totals [OF run mem]
  have exact: "whole_counts (sources example_acme1) \<and> sum_counts (sources example_acme1) < 2 ^ 53
          \<longrightarrow> totalCount example_acme1 = Fin (sum_counts (sources example_acme1))"
    and doc: "d_aggregateScore (write_review example_acme1) = None
          \<longleftrightarrow> totalCount example_acme1 = Fin 0
              \<or> (\<exists>n. aggregateScore example_acme1 = Some n \<and> \<not> is_finite n)"
    and perm: "\<forall>ys. mset ys = mset (sources example_acme1) \<and> length ys \<le> 2
            \<longrightarrow> calculateAggregate ys = aggregateScore example_acme1"
    by blast+
  from exact whole sum have total: "totalCount example_acme1 = Fin 30"
    by simp
  from perm rev have "calculateAggregate (rev (sources example_acme1)) = aggregateScore example_acme1"
    by blast
  with score have reversed: "calculateAggregate (rev (sources example_acme1)) = Some (fl (43 / 10))"
    by simp
  from doc total score have nonnull: "d_aggregateScore (write_review example_acme1) \<noteq> None"
    by simp
  from example_run1_value whole sum total score nonnull reversed show ?thesis by (intro conjI)
qed

section \<open>One entry for every item\<close>

lemma vendor_record_by_source:
  "filter (\<lambda>s. rs_source s = G2) (sources (vendor_record ctx k g2s caps)) = made_for G2 ctx k g2s"
  "filter (\<lambda>s. rs_source s = Capterra) (sources (vendor_record ctx k g2s caps)) = made_for Capterra ctx k caps"
proof -
  let ?g = "made_for G2 ctx k g2s"
  let ?c = "made_for Capterra ctx k caps"
  have g: "filter (\<lambda>s. rs_source s = G2) ?g = ?g" "filter (\<lambda>s. rs_source s = Capterra) ?g = []"
    by (auto simp: filter_id_conv filter_empty_conv dest: made_for_source)
  have c: "filter (\<lambda>s. rs_source s = Capterra) ?c = ?c" "filter (\<lambda>s. rs_source s = G2) ?c = []"
    by (auto simp: filter_id_conv filter_empty_conv dest: made_for_source)
  show "filter (\<lambda>s. rs_source s = G2) (sources (vendor_record ctx k g2s caps)) = ?g"
    "filter (\<lambda>s. rs_source s = Capterra) (sources (vendor_record ctx k g2s caps)) = ?c"
    by (simp_all add: vendor_record_sources g c)
qed

text \<open>
  Claim C8, as stated, says that several raw items resolving to the same vendor and source
  leave one ReviewSource, that of the last item. Here two G2 items resolve to the vendor
  acme, and its record has two G2 entries, the first item's and the second's.
\<close>

theorem aggregate_keeps_duplicates:
  "aggregate ''2026-02-01'' (Some example_mappings) Map.empty (Some example_twice) None
     = Inr (example_twice_out ''2026-02-01'')
   \<and> map fst (resolved_items G2 example_mappings example_twice) = [''acme'', ''acme'']
   \<and> map rs_source (sources (example_twice_acme ''2026-02-01'')) = [G2, G2]
   \<and> map rs_score (sources (example_twice_acme ''2026-02-01'')) = [Fin 4, Fin 5]"
proof -
  have "map fst (resolved_items G2 example_mappings example_twice) = [''acme'', ''acme'']"
    by (simp add: example_twice_resolved)
  moreover have "map rs_source (sources (example_twice_acme ''2026-02-01'')) = [G2, G2]"
    "map rs_score (sources (example_twice_acme ''2026-02-01'')) = [Fin 4, Fin 5]"
    by (simp_all add: example_twice_acme_def mk_source_def)
  ultimately show ?thesis using example_twice_first by simp
qed

text \<open>
  Claim C8, amended. Nothing is collapsed: every raw item that resolves to a vendor adds
  its own ReviewSource. In the record of a vendor, the entries of a source are, in the
  order of the raw file, the entries made from the items of that source that resolve to
  the vendor, one for each item.
\<close>

theorem aggregate_keeps_every_item:
  assumes "aggregate date (Some ms) prev g2Raw capterraRaw = Inr out"
    and "(slug, d) \<in> set out"
  shows "filter (\<lambda>s. rs_source s = G2) (sources d) =
           made_for G2 \<lparr>today = date, vendors = ms, previous = prev\<rparr> slug
             (resolved_items G2 ms (items_of g2Raw))
       \<and> filter (\<lambda>s. rs_source s = Capterra) (sources d) =
           made_for Capterra \<lparr>today = date, vendors = ms, previous = prev\<rparr> slug
             (resolved_items Capterra ms (items_of capterraRaw))
       \<and> length (filter (\<lambda>s. rs_source s = G2) (sources d)) =
           length (filter (\<lambda>r. fst r = slug) (resolved_items G2 ms (items_of g2Raw)))
       \<and> length (filter (\<lambda>s. rs_source s = Capterra) (sources d)) =
           length (filter (\<lambda>r. fst r = slug) (resolved_items Capterra ms (items_of capterraRaw)))"
proof -
  from assms obtain ms' where "Some ms = Some ms'"
    and d': "d = vendor_record \<lparr>today = date, vendors = ms', previous = prev\<rparr> slug
               (resolved_items G2 ms' (items_of g2Raw))
               (resolved_items Capterra ms' (items_of capterraRaw))"
    by (rule aggregate_entry)
  then have d: "d = vendor_record \<lparr>today = date, vendors = ms, previous = prev\<rparr> slug
               (resolved_items G2 ms (items_of g2Raw))
               (resolved_items Capterra ms (items_of capterraRaw))"
    by simp
  have len: "length (made_for src' ctx slug rs) = length (filter (\<lambda>r. fst r = slug) rs)"
    for src' ctx rs
    by (simp add: made_for_def)
  show ?thesis
    unfolding d by (simp add: vendor_record_by_source len)
qed

theorem aggregate_keeps_every_item_witness:
  "length (filter (\<lambda>s. rs_source s = G2) (sources (example_twice_acme ''2026-02-01''))) = 2
   \<and> length (filter (\<lambda>r. fst r = ''acme'') (resolved_items G2 example_mappings example_twice)) = 2
   \<and> filter (\<lambda>s. rs_source s = Capterra) (sources (example_twice_acme ''2026-02-01'')) = []"
proof -
  have mem: "(''acme'', example_twice_acme ''2026-02-01'') \<in> set (example_twice_out ''2026-02-01'')"
    by (simp add: example_twice_out_def)
  have two: "length (filter (\<lambda>r. fst r = ''acme'')
               (resolved_items G2 example_mappings (items_of (Some example_twice)))) = 2"
    by (simp add: items_of_def example_twice_resolved)
  have none: "resolved_items Capterra example_mappings (items_of None) = []"
    by (simp add: items_of_def resolved_items_Nil)
  show ?thesis
    using aggregate_keeps_every_item [OF example_twice_first mem] two none
    by (simp add: items_of_def made_for_def)
qed

section \<open>The stamp of a vendor record\<close>
















section \<open>Running twice\<close>

text \<open>
  Claim C2 (a second run on the output of the first writes the same output, on whatever
  date) fails in the code when two raw items resolve to the same vendor and source. Both
  items are kept; on the second run \<open>getPreviousSource\<close> finds the first of the two
  previous entries for both items, the second item differs from it, and its entry takes the
  date of the second run.
\<close>

theorem aggregate_rerun_restamps:
  "aggregate ''2026-02-01'' (Some example_mappings) Map.empty (Some example_twice) None
     = Inr (example_twice_out ''2026-02-01'')
   \<and> aggregate ''2026-02-02'' (Some example_mappings)
       (map_of (written (example_twice_out ''2026-02-01''))) (Some example_twice) None
     = Inr (example_twice_out ''2026-02-02'')
   \<and> written (example_twice_out ''2026-02-02'') \<noteq> written (example_twice_out ''2026-02-01'')"
proof -
  have "written (example_twice_out ''2026-02-02'') \<noteq> written (example_twice_out ''2026-02-01'')"
    by (simp add: written_def write_review_def write_source_def example_twice_out_def
          example_twice_acme_def mk_source_def)
  with example_twice_first example_twice_second show ?thesis by (intro conjI)
qed

text \<open>
  A count that reads as \<open>Infinity\<close> passes the guard \<open>count > 0\<close> and is written as
  \<open>null\<close>; the second run compares \<open>null\<close> with \<open>Infinity\<close> and stamps the entry and
  the record again, with one item for the vendor.
\<close>

lemma example_infinite_rerun:
  "aggregate ''2026-02-01'' (Some example_mappings) Map.empty (Some infinite_items) None
     = Inr (example_infinite_out ''2026-02-01'')
   \<and> aggregate ''2026-02-02'' (Some example_mappings)
       (map_of (written (example_infinite_out ''2026-02-01''))) (Some infinite_items) None
     = Inr (example_infinite_out ''2026-02-02'')
   \<and> map d_count (d_sources (write_review (example_infinite ''2026-02-01''))) = [None]
   \<and> written (example_infinite_out ''2026-02-02'') \<noteq> written (example_infinite_out ''2026-02-01'')"
proof -
  have "map d_count (d_sources (write_review (example_infinite ''2026-02-01''))) = [None]"
    "written (example_infinite_out ''2026-02-02'') \<noteq> written (example_infinite_out ''2026-02-01'')"
    by (simp_all add: written_def write_review_def write_source_def example_infinite_out_def
          example_infinite_def)
  with example_infinite_first example_infinite_second show ?thesis by (intro conjI)
qed

section \<open>The date of a source entry\<close>

text \<open>
  Claim C4 (for a vendor and source of the current extraction and of the previous output,
  \<open>lastUpdated\<close> is the previous one when score, count and URL are unchanged, and the
  date of the run otherwise) fails in the code when the previous output has two entries
  for the pair. In the second run of the two G2 items the extraction has (5.0, 20) for the
  vendor acme, the previous output has the entry (5.0, 20) with the same URL and the date
  of the first run, and the entry of the output takes the date of the second run.
\<close>

theorem aggregate_restamps_unchanged_entry:
  "aggregate ''2026-02-02'' (Some example_mappings)
       (map_of (written (example_twice_out ''2026-02-01''))) (Some example_twice) None
     = Inr (example_twice_out ''2026-02-02'')
   \<and> resolved_items G2 example_mappings example_twice =
       [(''acme'', Fin 4, Fin 10, acme_g2_url), (''acme'', Fin 5, Fin 20, acme_g2_url)]
   \<and> previous_sources (map_of (written (example_twice_out ''2026-02-01''))) ''acme'' =
       [doc_g2 4 10 acme_g2_url ''2026-02-01'', doc_g2 5 20 acme_g2_url ''2026-02-01'']
   \<and> map_of (example_twice_out ''2026-02-02'') ''acme'' = Some (example_twice_acme ''2026-02-02'')
   \<and> sources (example_twice_acme ''2026-02-02'') =
       [mk_source G2 4 10 acme_g2_url ''2026-02-01'', mk_source G2 5 20 acme_g2_url ''2026-02-02'']"
proof -
  have "previous_sources (map_of (written (example_twice_out ''2026-02-01''))) ''acme'' =
       [doc_g2 4 10 acme_g2_url ''2026-02-01'', doc_g2 5 20 acme_g2_url ''2026-02-01'']"
    by (simp add: previous_sources_def written_def write_review_def write_source_def
          example_twice_out_def example_twice_acme_def mk_source_def doc_g2_def acme_g2_url_def)
  moreover have "map_of (example_twice_out ''2026-02-02'') ''acme'' = Some (example_twice_acme ''2026-02-02'')"
    by (simp add: example_twice_out_def)
  moreover have "sources (example_twice_acme ''2026-02-02'') =
       [mk_source G2 4 10 acme_g2_url ''2026-02-01'', mk_source G2 5 20 acme_g2_url ''2026-02-02'']"
    by (simp add: example_twice_acme_def acme_g2_url_def)
  ultimately show ?thesis
    using example_twice_second example_twice_resolved by (intro conjI)
qed

text \<open>
  With one item for the vendor and source, and one previous entry for them, the entry of
  the output is made from the item (its score rounded to one decimal), and its
  \<open>lastUpdated\<close> is the previous one when score, count and URL are those of the previous
  entry, and the date of the run otherwise.
\<close>

lemma find_filter: "find P xs = (case filter P xs of [] \<Rightarrow> None | x # ys \<Rightarrow> Some x)"
  by (induction xs) simp_all

lemma aggregate_single_lastUpdated:
  assumes run: "aggregate date (Some ms) prev g2Raw capterraRaw = Inr out"
    and vendor: "(v, m) \<in> set ms"
    and one: "filter (\<lambda>r. fst r = v)
                (resolved_items src ms (items_of (case src of G2 \<Rightarrow> g2Raw | Capterra \<Rightarrow> capterraRaw)))
              = [(v, score, cnt, url)]"
    and previous_one: "filter (\<lambda>p. d_source p = src) (previous_sources prev v) = [p]"
  shows "\<exists>d. map_of out v = Some d
           \<and> filter (\<lambda>s. rs_source s = src) (sources d) =
               [\<lparr>rs_source = src,
                 rs_score = js_div (js_round (js_mul score (Fin 10))) (Fin 10),
                 rs_count = cnt, rs_url = url,
                 lastUpdated =
                   (if doc_eq (d_score p) (js_div (js_round (js_mul score (Fin 10))) (Fin 10))
                       \<and> doc_eq (d_count p) cnt \<and> d_url p = url
                    then d_lastUpdated p else date)\<rparr>]"
proof -
  let ?ctx = "\<lparr>today = date, vendors = ms, previous = prev\<rparr>"
  let ?g = "resolved_items G2 ms (items_of g2Raw)"
  let ?c = "resolved_items Capterra ms (items_of capterraRaw)"
  let ?d = "vendor_record ?ctx v ?g ?c"
  have out: "map_of out v = Some ?d"
    unfolding aggregate_Inr_map(1) [OF run] by (rule map_of_vendor_keys [OF vendor])
  have "filter (\<lambda>s. rs_source s = src) (sources ?d) =
          made_for src ?ctx v (resolved_items src ms (items_of (case src of G2 \<Rightarrow> g2Raw | Capterra \<Rightarrow> capterraRaw)))"
    by (cases src) (simp_all add: vendor_record_by_source)
  also have "\<dots> = [makeSource ?ctx v src score cnt url]"
    by (simp add: made_for_def one)
  finally have entries: "filter (\<lambda>s. rs_source s = src) (sources ?d) = [makeSource ?ctx v src score cnt url]" .
  have "getPreviousSource ?ctx v src = Some p"
    using previous_one
    by (simp add: getPreviousSource_def previous_sources_def find_filter split: option.splits)
  then have "makeSource ?ctx v src score cnt url =
      \<lparr>rs_source = src,
       rs_score = js_div (js_round (js_mul score (Fin 10))) (Fin 10),
       rs_count = cnt, rs_url = url,
       lastUpdated =
         (if doc_eq (d_score p) (js_div (js_round (js_mul score (Fin 10))) (Fin 10))
             \<and> doc_eq (d_count p) cnt \<and> d_url p = url
          then d_lastUpdated p else date)\<rparr>"
    by (simp add: makeSource_def Let_def)
  with out entries show ?thesis by simp
qed

section \<open>Items that are dropped\<close>

text \<open>
  Claim C7 (an item is dropped when its score is not a finite non-negative number) fails in
  the code for a negative score: the guard asks for a finite number only. An item with the
  score -1 and the count 5 gives a ReviewSource with the score -1 and the aggregate score
  -1, and the validation of the written file reports the score of that entry as an error.
\<close>

theorem aggregate_keeps_negative_score:
  "aggregate ''2026-02-01'' (Some example_mappings) Map.empty (Some [g2_beta (- 1) 5]) None
     = Inr [(''acme'', example_empty ''2026-02-01''), (''beta'', example_negative)]
   \<and> g2_url (g2_beta (- 1) 5) = JStr ''https://www.g2.com/products/beta''
   \<and> g2_score (g2_beta (- 1) 5) = JNum (- 1)
   \<and> map rs_score (sources example_negative) = [Fin (- 1)]
   \<and> map d_score (d_sources (write_review example_negative)) = [Some (- 1)]
   \<and> d_aggregateScore (write_review example_negative) = Some (- 1)
   \<and> score_error (Some (- 1))"
proof -
  have "g2_url (g2_beta (- 1) 5) = JStr ''https://www.g2.com/products/beta''"
    "g2_score (g2_beta (- 1) 5) = JNum (- 1)"
    by (simp_all add: g2_url_def g2_score_def g2_beta_def item_def js_or_def js_nullish_def)
  moreover have "map rs_score (sources example_negative) = [Fin (- 1)]"
    "map d_score (d_sources (write_review example_negative)) = [Some (- 1)]"
    "d_aggregateScore (write_review example_negative) = Some (- 1)"
    by (simp_all add: example_negative_def mk_source_def write_review_def write_source_def)
  moreover have "score_error (Some (- 1))"
    by (simp add: score_error_def)
  ultimately show ?thesis using example_negative_value by (intro conjI)
qed

text \<open>
  The rest of the claim holds. Take a raw item whose URL field is a string (or is missing
  or falsy, which reads as the empty string). If the URL yields no platform slug, or no
  vendor's mapping for the source has a non-empty slug equal to it up to case, or the
  score is not a number or not a finite one, or the count is not a number above zero, then
  the item resolves to nothing and the loop goes on with the result unchanged.
\<close>

lemma mapToVendorSlug_None:
  "mapToVendorSlug g src ms = None \<longleftrightarrow>
     (\<forall>(k, m) \<in> set ms. \<forall>pm s. platform_of src m = Some pm \<and> pm_slug pm = Some s \<and> s \<noteq> []
         \<longrightarrow> toLowerCase s \<noteq> toLowerCase g)"
  by (induction g src ms rule: mapToVendorSlug.induct)
     (auto simp: truthy_str_def split: option.splits)

lemma dropped_items:
  assumes "url_of src it = JStr u"
    and "platform_slug src u = None
       \<or> (\<exists>g. platform_slug src u = Some g
              \<and> (\<forall>(k, m) \<in> set (vendors ctx). \<forall>pm s.
                    platform_of src m = Some pm \<and> pm_slug pm = Some s \<and> s \<noteq> []
                    \<longrightarrow> toLowerCase s \<noteq> toLowerCase g))
       \<or> (\<forall>x. score_of src it = JNum x \<longrightarrow> \<not> is_finite (fl x))
       \<or> (\<forall>c. item_count it = JNum c \<longrightarrow> \<not> js_positive (fl c))"
  shows "resolve src (vendors ctx) it = Inr None
       \<and> process_items src ctx (it # items) res = process_items src ctx items res"
proof -
  have cond: "platform_slug src u = None
       \<or> (\<exists>g. platform_slug src u = Some g \<and> mapToVendorSlug g src (vendors ctx) = None)
       \<or> (\<forall>x. score_of src it = JNum x \<longrightarrow> \<not> is_finite (fl x))
       \<or> (\<forall>c. item_count it = JNum c \<longrightarrow> \<not> js_positive (fl c))"
    using assms(2) unfolding mapToVendorSlug_None .
  have "resolve src (vendors ctx) it = Inr None"
  proof (cases src)
    case G2
    with assms(1) cond show ?thesis
      by (auto simp: g2_resolve_def split: option.splits jsval.splits)
  next
    case Capterra
    with assms(1) cond show ?thesis
      by (auto simp: capterra_resolve_def split: option.splits jsval.splits)
  qed
  then show ?thesis by simp
qed

text \<open>
  Items that are dropped: a count of 0, a score written \<open>1e309\<close> (which reads as
  \<open>Infinity\<close>), a score that is a string.
\<close>

lemma dropped_items_examples:
  "resolve G2 example_mappings (g2_acme 4 0) = Inr None"
  "resolve G2 example_mappings (g2_acme (10 ^ 309) 5) = Inr None"
  "resolve G2 example_mappings
     (item (JStr ''https://www.g2.com/products/beta'') (JStr ''4.5'') (JNum 9)) = Inr None"
proof -
  let ?ctx = "\<lparr>today = ''2026-02-01'', vendors = example_mappings, previous = Map.empty\<rparr>"
  have u: "url_of G2 (g2_acme s c) = JStr ''https://www.g2.com/products/acme-ehr/reviews''" for s c
    by (simp add: g2_url_def g2_acme_def item_def js_or_def)
  have c1: "\<forall>c. item_count (g2_acme 4 0) = JNum c \<longrightarrow> \<not> js_positive (fl c)"
    by (simp add: g2_acme_def item_def js_nullish_def item_count_def)
  have "score_of G2 (g2_acme (10 ^ 309) 5) = JNum (10 ^ 309)"
    by (simp only: score_of.simps g2_score_def g2_acme_def item_def js_nullish_def
          raw_item.simps jsval.simps if_False simp_thms)
  then have s2: "\<forall>x. score_of G2 (g2_acme (10 ^ 309) 5) = JNum x \<longrightarrow> \<not> is_finite (fl x)"
    by (simp only: jsval.inject) (simp only: fl_overflow_example is_finite.simps simp_thms)
  have u3: "url_of G2 (item (JStr ''https://www.g2.com/products/beta'') (JStr ''4.5'') (JNum 9))
              = JStr ''https://www.g2.com/products/beta''"
    and n3: "\<forall>x. score_of G2 (item (JStr ''https://www.g2.com/products/beta'') (JStr ''4.5'') (JNum 9)) = JNum x
               \<longrightarrow> \<not> is_finite (fl x)"
    by (simp_all add: g2_url_def g2_score_def item_def js_or_def js_nullish_def)
  from dropped_items [of G2 "g2_acme 4 0" _ ?ctx, OF u] c1
  show "resolve G2 example_mappings (g2_acme 4 0) = Inr None" by simp
  from dropped_items [of G2 "g2_acme (10 ^ 309) 5" _ ?ctx, OF u] s2
  show "resolve G2 example_mappings (g2_acme (10 ^ 309) 5) = Inr None"
    by (simp only: run_context.simps) blast
  from dropped_items [of G2 _ _ ?ctx, OF u3] n3
  show "resolve G2 example_mappings
     (item (JStr ''https://www.g2.com/products/beta'') (JStr ''4.5'') (JNum 9)) = Inr None"
    by simp
qed

end
